theory Spec2Isabelle
  imports Complex_Main
begin

section \<open>JavaScript values and the builtins the handlers call\<close>

text \<open>
  A request body is JSON. The model keeps the primitive values: a key that is absent reads
  as \<open>JUndef\<close> (what destructuring gives), numbers are exact rationals. Decimal columns
  of the store are exact rationals too: the rounding of IEEE doubles and of
  \<open>DECIMAL(15,2)\<close> is not modelled. \<open>None\<close> of type \<open>rat option\<close> stands for NaN.
\<close>

datatype jv = JUndef | JNull | JBool bool | JNum rat | JStr string

text \<open>
  What JavaScript does to a string (parsing a number, a date, printing a number) is not
  code of this repository: the handlers take these functions as the parameter \<open>J\<close>, and
  every theorem holds for any choice of them. \<open>parseInt_str\<close> is \<open>parseInt(s)\<close>,
  \<open>parseInt10_str\<close> is \<open>parseInt(s, 10)\<close>; \<open>None\<close> is NaN.
\<close>

record js =
  parseFloat_str :: "string \<Rightarrow> rat option"
  parseInt_str :: "string \<Rightarrow> int option"
  parseInt10_str :: "string \<Rightarrow> int option"
  Number_str :: "string \<Rightarrow> rat option"
  toString_num :: "rat \<Rightarrow> string"
  Date_parse :: "string \<Rightarrow> int option"

definition truthy :: "jv \<Rightarrow> bool" where
  "truthy v = (case v of JUndef \<Rightarrow> False | JNull \<Rightarrow> False | JBool b \<Rightarrow> b
     | JNum r \<Rightarrow> r \<noteq> 0 | JStr s \<Rightarrow> s \<noteq> [])"

text \<open>\<open>a || b\<close>\<close>

definition js_or :: "jv \<Rightarrow> jv \<Rightarrow> jv" where
  "js_or a b = (if truthy a then a else b)"

text \<open>\<open>v == null\<close>\<close>

definition loose_null :: "jv \<Rightarrow> bool" where
  "loose_null v = (v = JUndef \<or> v = JNull)"

definition parseFloat :: "js \<Rightarrow> jv \<Rightarrow> rat option" where
  "parseFloat J v = (case v of JNum r \<Rightarrow> Some r | JStr s \<Rightarrow> parseFloat_str J s | _ \<Rightarrow> None)"

definition Number :: "js \<Rightarrow> jv \<Rightarrow> rat option" where
  "Number J v = (case v of JUndef \<Rightarrow> None | JNull \<Rightarrow> Some 0
     | JBool b \<Rightarrow> Some (if b then 1 else 0) | JNum r \<Rightarrow> Some r | JStr s \<Rightarrow> Number_str J s)"

text \<open>\<open>x <= 0\<close> on a number that may be NaN: a comparison with NaN is false.\<close>

definition le0 :: "rat option \<Rightarrow> bool" where
  "le0 x = (case x of None \<Rightarrow> False | Some r \<Rightarrow> r \<le> 0)"

text \<open>\<open>new Date(v)\<close> as milliseconds since the epoch; \<open>None\<close> is an invalid date.\<close>

definition newDate :: "js \<Rightarrow> jv \<Rightarrow> int option" where
  "newDate J v = (case v of JUndef \<Rightarrow> None | JNull \<Rightarrow> Some 0
     | JBool b \<Rightarrow> Some (if b then 1 else 0)
     | JNum r \<Rightarrow> Some (if 0 \<le> r then \<lfloor>r\<rfloor> else \<lceil>r\<rceil>)
     | JStr s \<Rightarrow> Date_parse J s)"

section \<open>Requests and replies\<close>

text \<open>
  \<open>userId\<close> is what the authentication middleware stored on the request, \<open>params_id\<close>
  the \<open>:id\<close> of the route, \<open>query\<close> the query string.
\<close>

record request =
  userId :: "string option"
  params_id :: string
  body :: "string \<Rightarrow> jv"
  query :: "string \<Rightarrow> string option"

text \<open>\<open>if (!userId) return res.status(401)\<close>: an empty string is falsy as well.\<close>

definition auth_user :: "request \<Rightarrow> string option" where
  "auth_user req = (case userId req of None \<Rightarrow> None
     | Some u \<Rightarrow> if u = [] then None else Some u)"

text \<open>A reply is a status with its payload, or a status with \<open>{error: message}\<close>.\<close>

datatype 'a reply = Json nat 'a | Fail nat string

section \<open>The store\<close>

text \<open>
  One list of rows per table. Decimal and timestamp columns are \<open>rat\<close> and \<open>int\<close>
  (milliseconds), a nullable column is an \<open>option\<close>.
\<close>

record account =
  acc_userId :: string
  totalBalance :: rat
  totalIncome :: rat
  totalExpense :: rat
  totalSavings :: rat
  totalInvested :: rat

record income =
  inc_id :: string
  inc_userId :: string
  inc_title :: string
  inc_source :: string
  inc_amount :: rat
  inc_date :: int
  inc_frequency :: "string option"
  inc_description :: "string option"

record expense =
  exp_id :: string
  exp_userId :: string
  exp_title :: string
  exp_category :: string
  exp_amount :: rat
  exp_date :: int
  exp_paymentMethod :: "string option"
  exp_description :: "string option"

record investment =
  inv_id :: string
  inv_userId :: string
  inv_title :: string
  inv_area :: string
  inv_amount :: rat
  inv_quantity :: "rat option"
  inv_purchasePrice :: "rat option"
  inv_currentValue :: "rat option"
  inv_date :: int
  inv_description :: "string option"

record budget =
  bud_id :: string
  bud_userId :: string
  bud_name :: string
  bud_category :: "string option"
  bud_spent :: rat
  bud_limit :: rat
  bud_color :: string
  bud_icon :: "string option"
  bud_frequency :: string
  bud_month :: "int option"
  bud_year :: "int option"
  bud_alertThreshold :: int
  bud_followed :: "bool option"
  bud_createdAt :: int

record card =
  card_id :: string
  card_userId :: string
  card_name :: string
  card_type :: string
  card_last4 :: string
  card_issuer :: "string option"
  card_expiryMonth :: "int option"
  card_expiryYear :: "int option"
  card_limit :: "rat option"
  card_isDefault :: bool
  card_createdAt :: int

record savingsGoal =
  goal_id :: string
  goal_userId :: string
  goal_title :: string
  goal_description :: "string option"
  goal_targetAmount :: rat
  goal_currentAmount :: rat
  goal_deadline :: "int option"
  goal_priority :: string
  goal_status :: string
  goal_category :: "string option"
  goal_icon :: "string option"
  goal_createdAt :: int

record transaction =
  tx_id :: string
  tx_userId :: string
  tx_title :: string
  tx_category :: string
  tx_amount :: rat
  tx_type :: string
  tx_date :: int
  tx_icon :: "string option"

record db =
  accounts :: "account list"
  incomes :: "income list"
  expenses :: "expense list"
  investments :: "investment list"
  budgets :: "budget list"
  cards :: "card list"
  savingsGoals :: "savingsGoal list"
  transactions :: "transaction list"

text \<open>
  \<open>prisma.x.update({where: {id}, data})\<close>: the row with that key is rewritten by \<open>f\<close>
  and returned. \<open>None\<close> is the call throwing: the data fails the column types
  (\<open>f\<close> gives \<open>None\<close>) or no row has the key.
\<close>

definition prisma_update ::
  "('a \<Rightarrow> string) \<Rightarrow> string \<Rightarrow> ('a \<Rightarrow> 'a option) \<Rightarrow> 'a list \<Rightarrow> ('a \<times> 'a list) option" where
  "prisma_update key i f tbl =
     (case find (\<lambda>r. key r = i) tbl of
        None \<Rightarrow> None
      | Some r \<Rightarrow>
          (case f r of
             None \<Rightarrow> None
           | Some r' \<Rightarrow> Some (r', map (\<lambda>x. if key x = i then r' else x) tbl)))"

text \<open>\<open>prisma.x.delete({where: {id}})\<close>\<close>

definition prisma_delete :: "('a \<Rightarrow> string) \<Rightarrow> string \<Rightarrow> 'a list \<Rightarrow> 'a list option" where
  "prisma_delete key i tbl =
     (case find (\<lambda>r. key r = i) tbl of
        None \<Rightarrow> None
      | Some r \<Rightarrow> Some (filter (\<lambda>x. key x \<noteq> i) tbl))"

section \<open>Writing rows: what the store accepts\<close>

text \<open>
  The store checks every value against its column before it writes: a text column takes a
  string, a decimal column a number that is not NaN, a timestamp a valid date. A value of
  the wrong kind makes the call throw, which the handlers turn into a 500. A key whose
  value is \<open>undefined\<close> is left out of the write.
\<close>

definition as_string :: "jv \<Rightarrow> string option" where
  "as_string v = (case v of JStr s \<Rightarrow> Some s | _ \<Rightarrow> None)"

text \<open>A nullable text column on create: \<open>undefined\<close> and \<open>null\<close> give NULL.\<close>

definition as_opt_string :: "jv \<Rightarrow> string option option" where
  "as_opt_string v = (case v of JUndef \<Rightarrow> Some None | JNull \<Rightarrow> Some None
     | JStr s \<Rightarrow> Some (Some s) | _ \<Rightarrow> None)"

text \<open>An integer column: a number with no fractional part.\<close>

definition as_int :: "jv \<Rightarrow> int option" where
  "as_int v = (case v of JNum r \<Rightarrow> (if of_int \<lfloor>r\<rfloor> = r then Some \<lfloor>r\<rfloor> else None) | _ \<Rightarrow> None)"

definition as_bool :: "jv \<Rightarrow> bool option" where
  "as_bool v = (case v of JBool b \<Rightarrow> Some b | _ \<Rightarrow> None)"

text \<open>
  The \<open>data\<close> of an update is built from spreads \<open>...(c && { field: value })\<close>: the list
  of the writes whose condition holds. \<open>put\<close> is one write, failing when the value does not
  fit the column; \<open>apply_data\<close> runs the writes on a row.
\<close>

definition spread :: "bool \<Rightarrow> 'a \<Rightarrow> 'a list" where
  "spread c x = (if c then [x] else [])"

definition put :: "(('a \<Rightarrow> 'a) \<Rightarrow> 'r \<Rightarrow> 'r) \<Rightarrow> 'a option \<Rightarrow> 'r \<Rightarrow> 'r option" where
  "put upd v r = map_option (\<lambda>x. upd (\<lambda>_. x) r) v"

definition apply_data :: "('r \<Rightarrow> 'r option) list \<Rightarrow> 'r \<Rightarrow> 'r option" where
  "apply_data steps r = fold (\<lambda>st acc. Option.bind acc st) steps (Some r)"

text \<open>\<open>prisma.x.create\<close>: the new row is appended; a key already in the table makes it throw.\<close>

definition prisma_create :: "('a \<Rightarrow> string) \<Rightarrow> 'a option \<Rightarrow> 'a list \<Rightarrow> ('a \<times> 'a list) option" where
  "prisma_create key row tbl =
     (case row of
        None \<Rightarrow> None
      | Some r \<Rightarrow> if key r \<in> set (map key tbl) then None else Some (r, tbl @ [r]))"

text \<open>\<open>prisma.account.create({ data: { userId } })\<close>: every total takes its default 0.\<close>

definition new_account :: "string \<Rightarrow> account" where
  "new_account uid = \<lparr>acc_userId = uid, totalBalance = 0, totalIncome = 0, totalExpense = 0,
     totalSavings = 0, totalInvested = 0\<rparr>"

text \<open>
  \<open>prisma.account.update({ where: { userId }, data })\<close> with increments and decrements:
  \<open>f\<close> is the change of the row.
\<close>

definition account_update :: "string \<Rightarrow> (account \<Rightarrow> account) \<Rightarrow> account list \<Rightarrow> account list option" where
  "account_update uid f tbl = map_option snd (prisma_update acc_userId uid (\<lambda>a. Some (f a)) tbl)"

text \<open>\<open>date ? new Date(date) : new Date()\<close>, \<open>now\<close> being the clock.\<close>

definition date_or_now :: "js \<Rightarrow> int \<Rightarrow> jv \<Rightarrow> int option" where
  "date_or_now J now date = (if truthy date then newDate J date else Some now)"

section \<open>Incomes\<close>

definition income_row ::
  "string \<Rightarrow> string \<Rightarrow> jv \<Rightarrow> jv \<Rightarrow> rat option \<Rightarrow> int option \<Rightarrow> jv \<Rightarrow> jv \<Rightarrow> income option" where
  "income_row nid uid title source amount date frequency description =
     (case (as_string title, as_string source, amount, date,
            as_opt_string frequency, as_opt_string description) of
        (Some t, Some so, Some a, Some d, Some f, Some de) \<Rightarrow>
          Some \<lparr>inc_id = nid, inc_userId = uid, inc_title = t, inc_source = so, inc_amount = a,
                inc_date = d, inc_frequency = f, inc_description = de\<rparr>
      | _ \<Rightarrow> None)"

text \<open>\<open>nid\<close> is the id the store generates for the new row, \<open>now\<close> the clock.\<close>

definition createIncome :: "js \<Rightarrow> int \<Rightarrow> string \<Rightarrow> db \<Rightarrow> request \<Rightarrow> income reply \<times> db" where
  "createIncome J now nid s req =
     (case auth_user req of
        None \<Rightarrow> (Fail 401 ''Unauthorized'', s)
      | Some uid \<Rightarrow>
          (let title = body req ''title''; source = body req ''source'';
               amount = body req ''amount''; date = body req ''date'';
               frequency = body req ''frequency''; description = body req ''description''
           in if \<not> truthy title \<or> \<not> truthy source \<or> \<not> truthy amount
              then (Fail 400 ''Title, source, and amount are required'', s)
              else
                (let parsedAmount = parseFloat J amount
                 in if le0 parsedAmount then (Fail 400 ''Amount must be greater than 0'', s)
                    else
                      (case prisma_create inc_id
                              (income_row nid uid title source parsedAmount
                                 (date_or_now J now date) frequency description) (incomes s) of
                         None \<Rightarrow> (Fail 500 ''Failed to create income'', s)
                       | Some (income, tbl) \<Rightarrow>
                           (let s1 = s\<lparr>incomes := tbl\<rparr>;
                                s2 = (case find (\<lambda>a. acc_userId a = uid) (accounts s1) of
                                        None \<Rightarrow> s1\<lparr>accounts := accounts s1 @ [new_account uid]\<rparr>
                                      | Some account \<Rightarrow> s1)
                            in case account_update uid
                                      (\<lambda>a. a\<lparr>totalIncome := totalIncome a + inc_amount income,
                                           totalBalance := totalBalance a + inc_amount income\<rparr>)
                                      (accounts s2) of
                                 None \<Rightarrow> (Fail 500 ''Failed to create income'', s2)
                               | Some accs \<Rightarrow> (Json 201 income, s2\<lparr>accounts := accs\<rparr>))))))"

definition updateIncome :: "js \<Rightarrow> db \<Rightarrow> request \<Rightarrow> income reply \<times> db" where
  "updateIncome J s req =
     (let title = body req ''title''; source = body req ''source'';
          amount = body req ''amount''; date = body req ''date'';
          frequency = body req ''frequency''; description = body req ''description''
      in case auth_user req of
        None \<Rightarrow> (Fail 401 ''Unauthorized'', s)
      | Some uid \<Rightarrow>
          (case find (\<lambda>r. inc_id r = params_id req \<and> inc_userId r = uid) (incomes s) of
             None \<Rightarrow> (Fail 404 ''Income not found'', s)
           | Some income \<Rightarrow>
               if truthy amount \<and> le0 (parseFloat J amount)
               then (Fail 400 ''Amount must be greater than 0'', s)
               else
                 (case prisma_update inc_id (params_id req)
                         (apply_data
                            (spread (truthy title) (put inc_title_update (as_string title)) @
                             spread (truthy source) (put inc_source_update (as_string source)) @
                             spread (truthy amount) (put inc_amount_update (parseFloat J amount)) @
                             spread (truthy date) (put inc_date_update (newDate J date)) @
                             spread (truthy frequency)
                               (put inc_frequency_update (map_option Some (as_string frequency))) @
                             spread (truthy description)
                               (put inc_description_update (map_option Some (as_string description)))))
                         (incomes s) of
                    None \<Rightarrow> (Fail 500 ''Failed to update income'', s)
                  | Some (updated, tbl) \<Rightarrow> (Json 200 updated, s\<lparr>incomes := tbl\<rparr>))))"

definition deleteIncome :: "db \<Rightarrow> request \<Rightarrow> string reply \<times> db" where
  "deleteIncome s req =
     (case auth_user req of
        None \<Rightarrow> (Fail 401 ''Unauthorized'', s)
      | Some uid \<Rightarrow>
          (case find (\<lambda>r. inc_id r = params_id req \<and> inc_userId r = uid) (incomes s) of
             None \<Rightarrow> (Fail 404 ''Income not found'', s)
           | Some income \<Rightarrow>
               (let s1 = (case find (\<lambda>a. acc_userId a = uid) (accounts s) of
                            None \<Rightarrow> Some s
                          | Some account \<Rightarrow>
                              map_option (\<lambda>accs. s\<lparr>accounts := accs\<rparr>)
                                (account_update uid
                                   (\<lambda>a. a\<lparr>totalIncome := totalIncome a - inc_amount income,
                                        totalBalance := totalBalance a - inc_amount income\<rparr>)
                                   (accounts s)))
                in case s1 of
                     None \<Rightarrow> (Fail 500 ''Failed to delete income'', s)
                   | Some s1 \<Rightarrow>
                       (case prisma_delete inc_id (params_id req) (incomes s1) of
                          None \<Rightarrow> (Fail 500 ''Failed to delete income'', s1)
                        | Some tbl \<Rightarrow> (Json 200 ''Income deleted'', s1\<lparr>incomes := tbl\<rparr>)))))"

section \<open>Expenses\<close>

definition expense_row ::
  "string \<Rightarrow> string \<Rightarrow> jv \<Rightarrow> jv \<Rightarrow> rat option \<Rightarrow> int option \<Rightarrow> jv \<Rightarrow> jv \<Rightarrow> expense option" where
  "expense_row nid uid title category amount date paymentMethod description =
     (case (as_string title, as_string category, amount, date,
            as_opt_string paymentMethod, as_opt_string description) of
        (Some t, Some c, Some a, Some d, Some pm, Some de) \<Rightarrow>
          Some \<lparr>exp_id = nid, exp_userId = uid, exp_title = t, exp_category = c, exp_amount = a,
                exp_date = d, exp_paymentMethod = pm, exp_description = de\<rparr>
      | _ \<Rightarrow> None)"

definition createExpense :: "js \<Rightarrow> int \<Rightarrow> string \<Rightarrow> db \<Rightarrow> request \<Rightarrow> expense reply \<times> db" where
  "createExpense J now nid s req =
     (case auth_user req of
        None \<Rightarrow> (Fail 401 ''Unauthorized'', s)
      | Some uid \<Rightarrow>
          (let title = body req ''title''; category = body req ''category'';
               amount = body req ''amount''; date = body req ''date'';
               paymentMethod = body req ''paymentMethod''; description = body req ''description''
           in if \<not> truthy title \<or> \<not> truthy category \<or> \<not> truthy amount
              then (Fail 400 ''Title, category, and amount are required'', s)
              else
                (let parsedAmount = parseFloat J amount
                 in if le0 parsedAmount then (Fail 400 ''Amount must be greater than 0'', s)
                    else
                      (case prisma_create exp_id
                              (expense_row nid uid title category parsedAmount
                                 (date_or_now J now date) paymentMethod description) (expenses s) of
                         None \<Rightarrow> (Fail 500 ''Failed to create expense'', s)
                       | Some (expense, tbl) \<Rightarrow>
                           (let s1 = s\<lparr>expenses := tbl\<rparr>
                            in case find (\<lambda>a. acc_userId a = uid) (accounts s1) of
                                 None \<Rightarrow> (Json 201 expense, s1)
                               | Some account \<Rightarrow>
                                   (case account_update uid
                                           (\<lambda>a. a\<lparr>totalExpense := totalExpense a + exp_amount expense,
                                                totalBalance := totalBalance a - exp_amount expense\<rparr>)
                                           (accounts s1) of
                                      None \<Rightarrow> (Fail 500 ''Failed to create expense'', s1)
                                    | Some accs \<Rightarrow> (Json 201 expense, s1\<lparr>accounts := accs\<rparr>)))))))"

definition updateExpense :: "js \<Rightarrow> db \<Rightarrow> request \<Rightarrow> expense reply \<times> db" where
  "updateExpense J s req =
     (let title = body req ''title''; category = body req ''category'';
          amount = body req ''amount''; date = body req ''date'';
          paymentMethod = body req ''paymentMethod''; description = body req ''description''
      in case auth_user req of
        None \<Rightarrow> (Fail 401 ''Unauthorized'', s)
      | Some uid \<Rightarrow>
          (case find (\<lambda>r. exp_id r = params_id req \<and> exp_userId r = uid) (expenses s) of
             None \<Rightarrow> (Fail 404 ''Expense not found'', s)
           | Some expense \<Rightarrow>
               if truthy amount \<and> le0 (parseFloat J amount)
               then (Fail 400 ''Amount must be greater than 0'', s)
               else
                 (case prisma_update exp_id (params_id req)
                         (apply_data
                            (spread (truthy title) (put exp_title_update (as_string title)) @
                             spread (truthy category) (put exp_category_update (as_string category)) @
                             spread (truthy amount) (put exp_amount_update (parseFloat J amount)) @
                             spread (truthy date) (put exp_date_update (newDate J date)) @
                             spread (truthy paymentMethod)
                               (put exp_paymentMethod_update (map_option Some (as_string paymentMethod))) @
                             spread (truthy description)
                               (put exp_description_update (map_option Some (as_string description)))))
                         (expenses s) of
                    None \<Rightarrow> (Fail 500 ''Failed to update expense'', s)
                  | Some (updated, tbl) \<Rightarrow> (Json 200 updated, s\<lparr>expenses := tbl\<rparr>))))"

definition deleteExpense :: "db \<Rightarrow> request \<Rightarrow> string reply \<times> db" where
  "deleteExpense s req =
     (case auth_user req of
        None \<Rightarrow> (Fail 401 ''Unauthorized'', s)
      | Some uid \<Rightarrow>
          (case find (\<lambda>r. exp_id r = params_id req \<and> exp_userId r = uid) (expenses s) of
             None \<Rightarrow> (Fail 404 ''Expense not found'', s)
           | Some expense \<Rightarrow>
               (let s1 = (case find (\<lambda>a. acc_userId a = uid) (accounts s) of
                            None \<Rightarrow> Some s
                          | Some account \<Rightarrow>
                              map_option (\<lambda>accs. s\<lparr>accounts := accs\<rparr>)
                                (account_update uid
                                   (\<lambda>a. a\<lparr>totalExpense := totalExpense a - exp_amount expense,
                                        totalBalance := totalBalance a + exp_amount expense\<rparr>)
                                   (accounts s)))
                in case s1 of
                     None \<Rightarrow> (Fail 500 ''Failed to delete expense'', s)
                   | Some s1 \<Rightarrow>
                       (case prisma_delete exp_id (params_id req) (expenses s1) of
                          None \<Rightarrow> (Fail 500 ''Failed to delete expense'', s1)
                        | Some tbl \<Rightarrow> (Json 200 ''Expense deleted'', s1\<lparr>expenses := tbl\<rparr>)))))"

section \<open>Investments\<close>

text \<open>\<open>v ? parseFloat(v) : undefined\<close> on a nullable decimal column.\<close>

definition opt_decimal :: "js \<Rightarrow> jv \<Rightarrow> rat option option" where
  "opt_decimal J v = (if truthy v then map_option Some (parseFloat J v) else Some None)"

definition investment_row ::
  "js \<Rightarrow> string \<Rightarrow> string \<Rightarrow> jv \<Rightarrow> jv \<Rightarrow> rat option \<Rightarrow> jv \<Rightarrow> jv \<Rightarrow> jv \<Rightarrow> int option \<Rightarrow> jv
     \<Rightarrow> investment option" where
  "investment_row J nid uid title area amount quantity purchasePrice currentValue date description =
     (case (as_string title, as_string area, amount, opt_decimal J quantity,
            opt_decimal J purchasePrice,
            (if truthy currentValue then parseFloat J currentValue else amount), date,
            as_opt_string description) of
        (Some t, Some ar, Some a, Some q, Some pp, Some cv, Some d, Some de) \<Rightarrow>
          Some \<lparr>inv_id = nid, inv_userId = uid, inv_title = t, inv_area = ar, inv_amount = a,
                inv_quantity = q, inv_purchasePrice = pp, inv_currentValue = Some cv,
                inv_date = d, inv_description = de\<rparr>
      | _ \<Rightarrow> None)"

definition createInvestment :: "js \<Rightarrow> int \<Rightarrow> string \<Rightarrow> db \<Rightarrow> request \<Rightarrow> investment reply \<times> db" where
  "createInvestment J now nid s req =
     (case auth_user req of
        None \<Rightarrow> (Fail 401 ''Unauthorized'', s)
      | Some uid \<Rightarrow>
          (let title = body req ''title''; area = body req ''area'';
               amount = body req ''amount''; quantity = body req ''quantity'';
               purchasePrice = body req ''purchasePrice''; currentValue = body req ''currentValue'';
               date = body req ''date''; description = body req ''description''
           in if \<not> truthy title \<or> \<not> truthy area \<or> \<not> truthy amount
              then (Fail 400 ''Title, area, and amount are required'', s)
              else
                (let parsedAmount = parseFloat J amount
                 in if le0 parsedAmount then (Fail 400 ''Amount must be greater than 0'', s)
                    else
                      (case prisma_create inv_id
                              (investment_row J nid uid title area parsedAmount quantity
                                 purchasePrice currentValue (date_or_now J now date) description)
                              (investments s) of
                         None \<Rightarrow> (Fail 500 ''Failed to create investment'', s)
                       | Some (investment, tbl) \<Rightarrow>
                           (let s1 = s\<lparr>investments := tbl\<rparr>;
                                s2 = (case find (\<lambda>a. acc_userId a = uid) (accounts s1) of
                                        None \<Rightarrow> s1\<lparr>accounts := accounts s1 @ [new_account uid]\<rparr>
                                      | Some account \<Rightarrow> s1)
                            in case account_update uid
                                      (\<lambda>a. a\<lparr>totalInvested := totalInvested a + inv_amount investment,
                                           totalBalance := totalBalance a - inv_amount investment\<rparr>)
                                      (accounts s2) of
                                 None \<Rightarrow> (Fail 500 ''Failed to create investment'', s2)
                               | Some accs \<Rightarrow> (Json 201 investment, s2\<lparr>accounts := accs\<rparr>))))))"

definition updateInvestment :: "js \<Rightarrow> db \<Rightarrow> request \<Rightarrow> investment reply \<times> db" where
  "updateInvestment J s req =
     (let title = body req ''title''; area = body req ''area'';
          quantity = body req ''quantity''; purchasePrice = body req ''purchasePrice'';
          currentValue = body req ''currentValue''; description = body req ''description''
      in case auth_user req of
        None \<Rightarrow> (Fail 401 ''Unauthorized'', s)
      | Some uid \<Rightarrow>
          (case find (\<lambda>r. inv_id r = params_id req \<and> inv_userId r = uid) (investments s) of
             None \<Rightarrow> (Fail 404 ''Investment not found'', s)
           | Some investment \<Rightarrow>
               (case prisma_update inv_id (params_id req)
                       (apply_data
                          (spread (truthy title) (put inv_title_update (as_string title)) @
                           spread (truthy area) (put inv_area_update (as_string area)) @
                           spread (truthy quantity)
                             (put inv_quantity_update (map_option Some (parseFloat J quantity))) @
                           spread (truthy purchasePrice)
                             (put inv_purchasePrice_update (map_option Some (parseFloat J purchasePrice))) @
                           spread (truthy currentValue)
                             (put inv_currentValue_update (map_option Some (parseFloat J currentValue))) @
                           spread (truthy description)
                             (put inv_description_update (map_option Some (as_string description)))))
                       (investments s) of
                  None \<Rightarrow> (Fail 500 ''Failed to update investment'', s)
                | Some (updated, tbl) \<Rightarrow> (Json 200 updated, s\<lparr>investments := tbl\<rparr>))))"

definition deleteInvestment :: "db \<Rightarrow> request \<Rightarrow> string reply \<times> db" where
  "deleteInvestment s req =
     (case auth_user req of
        None \<Rightarrow> (Fail 401 ''Unauthorized'', s)
      | Some uid \<Rightarrow>
          (case find (\<lambda>r. inv_id r = params_id req \<and> inv_userId r = uid) (investments s) of
             None \<Rightarrow> (Fail 404 ''Investment not found'', s)
           | Some investment \<Rightarrow>
               (let s1 = (case find (\<lambda>a. acc_userId a = uid) (accounts s) of
                            None \<Rightarrow> Some s
                          | Some account \<Rightarrow>
                              map_option (\<lambda>accs. s\<lparr>accounts := accs\<rparr>)
                                (account_update uid
                                   (\<lambda>a. a\<lparr>totalInvested := totalInvested a - inv_amount investment,
                                        totalBalance := totalBalance a + inv_amount investment\<rparr>)
                                   (accounts s)))
                in case s1 of
                     None \<Rightarrow> (Fail 500 ''Failed to delete investment'', s)
                   | Some s1 \<Rightarrow>
                       (case prisma_delete inv_id (params_id req) (investments s1) of
                          None \<Rightarrow> (Fail 500 ''Failed to delete investment'', s1)
                        | Some tbl \<Rightarrow> (Json 200 ''Investment deleted'', s1\<lparr>investments := tbl\<rparr>)))))"

section \<open>The dashboard\<close>

text \<open>
  Time is milliseconds since the epoch. The server's local calendar is the one of a fixed
  offset \<open>tz\<close> (milliseconds east of UTC; daylight saving is not modelled), so that
  \<open>date.setDate(date.getDate() - k)\<close> goes back \<open>k\<close> whole days, \<open>setHours(0, 0, 0, 0)\<close>
  and \<open>setHours(23, 59, 59, 999)\<close> give the first and the last millisecond of the local
  day, and \<open>getDay()\<close> counts from Sunday (1 January 1970 was a Thursday).
\<close>

definition DAY_MS :: int where
  "DAY_MS = 86400000"

definition minusDays :: "int \<Rightarrow> int \<Rightarrow> int" where
  "minusDays t k = t - k * DAY_MS"

definition startOfDay :: "int \<Rightarrow> int \<Rightarrow> int" where
  "startOfDay tz t = t - (t + tz) mod DAY_MS"

definition endOfDay :: "int \<Rightarrow> int \<Rightarrow> int" where
  "endOfDay tz t = startOfDay tz t + (DAY_MS - 1)"

definition getDay :: "int \<Rightarrow> int \<Rightarrow> nat" where
  "getDay tz t = nat (((t + tz) div DAY_MS + 4) mod 7)"

definition weekdays :: "string list" where
  "weekdays = [''Sun'', ''Mon'', ''Tue'', ''Wed'', ''Thu'', ''Fri'', ''Sat'']"

text \<open>\<open>Math.round\<close> rounds a half upwards.\<close>

definition Math_round :: "rat \<Rightarrow> int" where
  "Math_round x = \<lfloor>x + 1 / 2\<rfloor>"

text \<open>\<open>findMany({ where: { userId }, orderBy: { date: 'desc' } })\<close>\<close>

definition incomes_of :: "string \<Rightarrow> db \<Rightarrow> income list" where
  "incomes_of uid s = sort_key (\<lambda>r. - inc_date r) (filter (\<lambda>r. inc_userId r = uid) (incomes s))"

definition expenses_of :: "string \<Rightarrow> db \<Rightarrow> expense list" where
  "expenses_of uid s = sort_key (\<lambda>r. - exp_date r) (filter (\<lambda>r. exp_userId r = uid) (expenses s))"

definition investments_of :: "string \<Rightarrow> db \<Rightarrow> investment list" where
  "investments_of uid s =
     sort_key (\<lambda>r. - inv_date r) (filter (\<lambda>r. inv_userId r = uid) (investments s))"

text \<open>The weekly series, one \<open>(day, amount)\<close> per entry, as \<open>getDashboard\<close> computes it.\<close>

definition weeklyStats_of :: "int \<Rightarrow> int \<Rightarrow> income list \<Rightarrow> expense list \<Rightarrow> (string \<times> rat) list" where
  "weeklyStats_of tz now incs exps =
     (let sevenDaysAgo = minusDays now 7;
          weeklyIncomes = filter (\<lambda>i. inc_date i \<ge> sevenDaysAgo) incs;
          weeklyExpenses = filter (\<lambda>e. exp_date e \<ge> sevenDaysAgo) exps
      in map (\<lambda>i.
            (let date = minusDays now (6 - int i);
                 day = weekdays ! getDay tz date;
                 dayStart = startOfDay tz date;
                 dayEnd = endOfDay tz date;
                 dayIncome = foldl (\<lambda>sum t. sum + inc_amount t) 0
                    (filter (\<lambda>t. inc_date t \<ge> dayStart \<and> inc_date t \<le> dayEnd) weeklyIncomes);
                 dayExpense = foldl (\<lambda>sum t. sum + exp_amount t) 0
                    (filter (\<lambda>t. exp_date t \<ge> dayStart \<and> exp_date t \<le> dayEnd) weeklyExpenses);
                 amount = dayIncome - dayExpense
             in (day, max 0 amount)))
           [0..<7])"

text \<open>
  The reply of \<open>getDashboard\<close>: the ledger totals, the sums over the user's rows and the
  weekly series. Its other parts (cards, the merged transaction feed, budgets, the category
  ranking, the goals) are projections of the tables and are left out.
\<close>

record dashboard =
  dash_totalBalance :: rat
  dash_totalIncome :: rat
  dash_totalExpense :: rat
  dash_totalSavings :: rat
  dash_totalInvested :: rat
  totalIncomeSum :: rat
  totalExpenseSum :: rat
  totalInvestmentSum :: rat
  balanceLeft :: rat
  recommendedSavings :: rat
  weeklyStats :: "(string \<times> rat) list"

definition getDashboard :: "int \<Rightarrow> int \<Rightarrow> db \<Rightarrow> request \<Rightarrow> dashboard reply \<times> db" where
  "getDashboard tz now s req =
     (case auth_user req of
        None \<Rightarrow> (Fail 401 ''Unauthorized'', s)
      | Some uid \<Rightarrow>
          (let account = find (\<lambda>a. acc_userId a = uid) (accounts s);
               incs = incomes_of uid s;
               exps = expenses_of uid s;
               invs = investments_of uid s;
               incomeSum = foldl (\<lambda>s i. s + inc_amount i) 0 incs;
               expenseSum = foldl (\<lambda>s e. s + exp_amount e) 0 exps;
               investmentSum = foldl (\<lambda>s inv. s + inv_amount inv) 0 invs;
               left = incomeSum - expenseSum - investmentSum;
               recommended = max 0 (1 / 10 * left)
           in (Json 200
                 \<lparr>dash_totalBalance = (case account of None \<Rightarrow> 0 | Some a \<Rightarrow> totalBalance a),
                  dash_totalIncome = (case account of None \<Rightarrow> 0 | Some a \<Rightarrow> totalIncome a),
                  dash_totalExpense = (case account of None \<Rightarrow> 0 | Some a \<Rightarrow> totalExpense a),
                  dash_totalSavings = (case account of None \<Rightarrow> 0 | Some a \<Rightarrow> totalSavings a),
                  dash_totalInvested = (case account of None \<Rightarrow> 0 | Some a \<Rightarrow> totalInvested a),
                  totalIncomeSum = incomeSum,
                  totalExpenseSum = expenseSum,
                  totalInvestmentSum = investmentSum,
                  balanceLeft = left,
                  recommendedSavings = of_int (Math_round (recommended * 100)) / 100,
                  weeklyStats = weeklyStats_of tz now incs exps\<rparr>,
               s)))"

text \<open>A JSON object as the function from its keys, and a request of user \<open>u\<close>.\<close>

definition obj :: "(string \<times> jv) list \<Rightarrow> string \<Rightarrow> jv" where
  "obj kvs k = (case map_of kvs k of None \<Rightarrow> JUndef | Some v \<Rightarrow> v)"

definition user_req :: "string \<Rightarrow> string \<Rightarrow> (string \<times> jv) list \<Rightarrow> request" where
  "user_req u i kvs = \<lparr>userId = Some u, params_id = i, body = obj kvs, query = (\<lambda>k. None)\<rparr>"

section \<open>Savings goals\<close>

text \<open>\<open>Number(target) > 0 ? (Number(current) / Number(target)) * 100 : 0\<close>\<close>

definition progress :: "savingsGoal \<Rightarrow> rat" where
  "progress g = (if goal_targetAmount g > 0
     then (goal_currentAmount g / goal_targetAmount g) * 100 else 0)"

definition contributeSavingsGoal ::
  "js \<Rightarrow> db \<Rightarrow> request \<Rightarrow> (savingsGoal \<times> rat \<times> bool) reply \<times> db" where
  "contributeSavingsGoal J s req =
     (let amount = body req ''amount'' in
      case auth_user req of
        None \<Rightarrow> (Fail 401 ''Unauthorized'', s)
      | Some uid \<Rightarrow>
          if loose_null amount \<or> le0 (Number J amount)
          then (Fail 400 ''Amount must be greater than 0'', s)
          else
            (case find (\<lambda>g. goal_id g = params_id req \<and> goal_userId g = uid) (savingsGoals s) of
               None \<Rightarrow> (Fail 404 ''Savings goal not found'', s)
             | Some goal \<Rightarrow>
                 (case Number J amount of
                    None \<Rightarrow> (Fail 500 ''Failed to contribute to savings goal'', s)
                  | Some a \<Rightarrow>
                      (let newAmount = goal_currentAmount goal + a;
                           isComplete = (newAmount \<ge> goal_targetAmount goal)
                       in case prisma_update goal_id (params_id req)
                                 (\<lambda>g. Some (g\<lparr>goal_currentAmount := newAmount,
                                     goal_status := (if isComplete then ''completed'' else ''active'')\<rparr>))
                                 (savingsGoals s) of
                            None \<Rightarrow> (Fail 500 ''Failed to contribute to savings goal'', s)
                          | Some (updated, tbl) \<Rightarrow>
                              (Json 200 (updated, progress updated, isComplete),
                               s\<lparr>savingsGoals := tbl\<rparr>)))))"

definition withdrawSavingsGoal ::
  "js \<Rightarrow> db \<Rightarrow> request \<Rightarrow> (savingsGoal \<times> rat) reply \<times> db" where
  "withdrawSavingsGoal J s req =
     (let amount = body req ''amount'' in
      case auth_user req of
        None \<Rightarrow> (Fail 401 ''Unauthorized'', s)
      | Some uid \<Rightarrow>
          if loose_null amount \<or> le0 (Number J amount)
          then (Fail 400 ''Amount must be greater than 0'', s)
          else
            (case find (\<lambda>g. goal_id g = params_id req \<and> goal_userId g = uid) (savingsGoals s) of
               None \<Rightarrow> (Fail 404 ''Savings goal not found'', s)
             | Some goal \<Rightarrow>
                 (case Number J amount of
                    None \<Rightarrow> (Fail 500 ''Failed to withdraw from savings goal'', s)
                  | Some a \<Rightarrow>
                      (let newAmount = max 0 (goal_currentAmount goal - a)
                       in case prisma_update goal_id (params_id req)
                                 (\<lambda>g. Some (g\<lparr>goal_currentAmount := newAmount\<rparr>))
                                 (savingsGoals s) of
                            None \<Rightarrow> (Fail 500 ''Failed to withdraw from savings goal'', s)
                          | Some (updated, tbl) \<Rightarrow>
                              (Json 200 (updated, progress updated), s\<lparr>savingsGoals := tbl\<rparr>)))))"

text \<open>A request of user \<open>u\<close> on \<open>/:id\<close> whose body is \<open>{amount: v}\<close>.\<close>

definition amount_req :: "string \<Rightarrow> string \<Rightarrow> jv \<Rightarrow> request" where
  "amount_req u i v = \<lparr>userId = Some u, params_id = i,
     body = (\<lambda>k. if k = ''amount'' then v else JUndef), query = (\<lambda>k. None)\<rparr>"

definition updateSavingsGoal :: "js \<Rightarrow> db \<Rightarrow> request \<Rightarrow> (savingsGoal \<times> rat) reply \<times> db" where
  "updateSavingsGoal J s req =
     (let title = body req ''title''; currentAmount = body req ''currentAmount'';
          deadline = body req ''deadline''; priority = body req ''priority'';
          status = body req ''status''; category = body req ''category'';
          description = body req ''description''
      in case auth_user req of
        None \<Rightarrow> (Fail 401 ''Unauthorized'', s)
      | Some uid \<Rightarrow>
          (case find (\<lambda>g. goal_id g = params_id req \<and> goal_userId g = uid) (savingsGoals s) of
             None \<Rightarrow> (Fail 404 ''Savings goal not found'', s)
           | Some goal \<Rightarrow>
               (case prisma_update goal_id (params_id req)
                       (apply_data
                          (spread (truthy title) (put goal_title_update (as_string title)) @
                           spread (currentAmount \<noteq> JUndef)
                             (put goal_currentAmount_update (Number J currentAmount)) @
                           spread (truthy deadline)
                             (put goal_deadline_update (map_option Some (newDate J deadline))) @
                           spread (truthy priority) (put goal_priority_update (as_string priority)) @
                           spread (truthy status) (put goal_status_update (as_string status)) @
                           spread (truthy category)
                             (put goal_category_update (map_option Some (as_string category))) @
                           spread (truthy description)
                             (put goal_description_update (map_option Some (as_string description)))))
                       (savingsGoals s) of
                  None \<Rightarrow> (Fail 500 ''Failed to update savings goal'', s)
                | Some (updated, tbl) \<Rightarrow>
                    (Json 200 (updated, progress updated), s\<lparr>savingsGoals := tbl\<rparr>))))"

definition deleteSavingsGoal :: "db \<Rightarrow> request \<Rightarrow> string reply \<times> db" where
  "deleteSavingsGoal s req =
     (case auth_user req of
        None \<Rightarrow> (Fail 401 ''Unauthorized'', s)
      | Some uid \<Rightarrow>
          (case find (\<lambda>g. goal_id g = params_id req \<and> goal_userId g = uid) (savingsGoals s) of
             None \<Rightarrow> (Fail 404 ''Savings goal not found'', s)
           | Some goal \<Rightarrow>
               (case prisma_delete goal_id (params_id req) (savingsGoals s) of
                  None \<Rightarrow> (Fail 500 ''Failed to delete savings goal'', s)
                | Some tbl \<Rightarrow> (Json 200 ''Savings goal deleted'', s\<lparr>savingsGoals := tbl\<rparr>))))"

text \<open>\<open>getSavingsGoals\<close>: every goal of the user with its progress, newest first.\<close>

definition getSavingsGoals :: "db \<Rightarrow> request \<Rightarrow> (savingsGoal \<times> rat) list reply \<times> db" where
  "getSavingsGoals s req =
     (case auth_user req of
        None \<Rightarrow> (Fail 401 ''Unauthorized'', s)
      | Some uid \<Rightarrow>
          (Json 200
             (map (\<lambda>g. (g, progress g))
                (sort_key (\<lambda>g. - goal_createdAt g)
                   (filter (\<lambda>g. goal_userId g = uid) (savingsGoals s)))),
           s))"

section \<open>Budgets\<close>

text \<open>The budget controller, mounted at \<open>/api/budgets\<close>.\<close>

definition getBudgets :: "db \<Rightarrow> request \<Rightarrow> budget list reply \<times> db" where
  "getBudgets s req =
     (case auth_user req of
        None \<Rightarrow> (Fail 401 ''Unauthorized'', s)
      | Some uid \<Rightarrow>
          (Json 200
             (sort_key (\<lambda>b. - bud_createdAt b) (filter (\<lambda>b. bud_userId b = uid) (budgets s))),
           s))"

definition updateBudget :: "js \<Rightarrow> db \<Rightarrow> request \<Rightarrow> budget reply \<times> db" where
  "updateBudget J s req =
     (let name = body req ''name''; category = body req ''category'';
          limit = body req ''limit''; spent = body req ''spent'';
          color = body req ''color''; icon = body req ''icon'';
          alertThreshold = body req ''alertThreshold''; followed = body req ''followed''
      in case auth_user req of
        None \<Rightarrow> (Fail 401 ''Unauthorized'', s)
      | Some uid \<Rightarrow>
          (case find (\<lambda>b. bud_id b = params_id req \<and> bud_userId b = uid) (budgets s) of
             None \<Rightarrow> (Fail 404 ''Budget not found'', s)
           | Some budget \<Rightarrow>
               (case prisma_update bud_id (params_id req)
                       (apply_data
                          (spread (truthy name) (put bud_name_update (as_string name)) @
                           spread (category \<noteq> JUndef)
                             (put bud_category_update (as_opt_string category)) @
                           spread (truthy limit) (put bud_limit_update (parseFloat J limit)) @
                           spread (spent \<noteq> JUndef) (put bud_spent_update (parseFloat J spent)) @
                           spread (truthy color) (put bud_color_update (as_string color)) @
                           spread (icon \<noteq> JUndef) (put bud_icon_update (as_opt_string icon)) @
                           spread (alertThreshold \<noteq> JUndef)
                             (put bud_alertThreshold_update (as_int alertThreshold)) @
                           spread (followed \<noteq> JUndef)
                             (put bud_followed_update (Some (Some (truthy followed))))))
                       (budgets s) of
                  None \<Rightarrow> (Fail 500 ''Failed to update budget'', s)
                | Some (updated, tbl) \<Rightarrow> (Json 200 updated, s\<lparr>budgets := tbl\<rparr>))))"

definition deleteBudget :: "db \<Rightarrow> request \<Rightarrow> string reply \<times> db" where
  "deleteBudget s req =
     (case auth_user req of
        None \<Rightarrow> (Fail 401 ''Unauthorized'', s)
      | Some uid \<Rightarrow>
          (case find (\<lambda>b. bud_id b = params_id req \<and> bud_userId b = uid) (budgets s) of
             None \<Rightarrow> (Fail 404 ''Budget not found'', s)
           | Some budget \<Rightarrow>
               (case prisma_delete bud_id (params_id req) (budgets s) of
                  None \<Rightarrow> (Fail 500 ''Failed to delete budget'', s)
                | Some tbl \<Rightarrow> (Json 200 ''Budget deleted'', s\<lparr>budgets := tbl\<rparr>))))"

text \<open>
  The dashboard controller has an \<open>updateBudget\<close> of its own, mounted at \<open>/api\<close> as
  \<open>PUT /budgets/:id\<close>. It reads no user id: the row is looked up by \<open>id\<close> alone. Its
  reply is the summary \<open>{id, name, spent, limit, color, icon}\<close>.
\<close>

record budget_summary =
  sum_id :: string
  sum_name :: string
  sum_spent :: rat
  sum_limit :: rat
  sum_color :: string
  sum_icon :: "string option"

definition dashboard_updateBudget :: "js \<Rightarrow> db \<Rightarrow> request \<Rightarrow> budget_summary reply \<times> db" where
  "dashboard_updateBudget J s req =
     (let spent = body req ''spent''; limit = body req ''limit''
      in case prisma_update bud_id (params_id req)
              (apply_data
                 (spread (spent \<noteq> JUndef) (put bud_spent_update (parseFloat J spent)) @
                  spread (limit \<noteq> JUndef) (put bud_limit_update (parseFloat J limit))))
              (budgets s) of
           None \<Rightarrow> (Fail 500 ''Failed to update budget'', s)
         | Some (budget, tbl) \<Rightarrow>
             (Json 200
                \<lparr>sum_id = bud_id budget, sum_name = bud_name budget, sum_spent = bud_spent budget,
                 sum_limit = bud_limit budget, sum_color = bud_color budget,
                 sum_icon = bud_icon budget\<rparr>,
              s\<lparr>budgets := tbl\<rparr>))"

section \<open>Cards\<close>

text \<open>\<open>v.toString()\<close> of a value that is not \<open>null\<close> or \<open>undefined\<close>.\<close>

definition toString :: "js \<Rightarrow> jv \<Rightarrow> string" where
  "toString J v = (case v of JStr s \<Rightarrow> s | JNum r \<Rightarrow> toString_num J r
     | JBool b \<Rightarrow> (if b then ''true'' else ''false'') | _ \<Rightarrow> [])"

text \<open>\<open>s.split(c)\<close> and \<open>s.trim()\<close> (the ASCII white space).\<close>

fun split_on :: "char \<Rightarrow> string \<Rightarrow> string list" where
  "split_on c [] = [[]]"
| "split_on c (x # xs) =
     (if x = c then [] # split_on c xs
      else (case split_on c xs of [] \<Rightarrow> [[x]] | p # ps \<Rightarrow> (x # p) # ps))"

definition is_space :: "char \<Rightarrow> bool" where
  "is_space ch = (ch \<in> {CHR '' '', CHR 0x09, CHR 0x0A, CHR 0x0B, CHR 0x0C, CHR 0x0D})"

definition trim :: "string \<Rightarrow> string" where
  "trim s = rev (dropWhile is_space (rev (dropWhile is_space s)))"

text \<open>
  The expiry of a card: \<open>expiryMonth\<close> and \<open>expiryYear\<close> of the body, overridden by the
  two parts of an \<open>expiryDate\<close> "MM/YY" or "MM/YYYY" that parse; a year below 100 is
  in the 2000s.
\<close>

definition final_expiry :: "js \<Rightarrow> jv \<Rightarrow> jv \<Rightarrow> jv \<Rightarrow> jv \<times> jv" where
  "final_expiry J expiryMonth expiryYear expiryDate =
     (case expiryDate of
        JStr sd \<Rightarrow>
          (if sd = [] then (expiryMonth, expiryYear)
           else
             (let parts = map trim (split_on (CHR ''/'') sd)
              in if length parts = 2
                 then
                   (let m = parseInt10_str J (parts ! 0);
                        y = map_option (\<lambda>y. if y < 100 then y + 2000 else y)
                              (parseInt10_str J (parts ! 1))
                    in ((case m of None \<Rightarrow> expiryMonth | Some m \<Rightarrow> JNum (of_int m)),
                        (case y of None \<Rightarrow> expiryYear | Some y \<Rightarrow> JNum (of_int y))))
                 else (expiryMonth, expiryYear)))
      | _ \<Rightarrow> (expiryMonth, expiryYear))"

text \<open>\<open>v || null\<close> on a nullable integer column.\<close>

definition opt_int :: "jv \<Rightarrow> int option option" where
  "opt_int v = (if truthy v then map_option Some (as_int v) else Some None)"

definition card_row ::
  "js \<Rightarrow> int \<Rightarrow> string \<Rightarrow> string \<Rightarrow> string \<Rightarrow> jv \<Rightarrow> jv \<Rightarrow> jv \<Rightarrow> jv \<Rightarrow> jv \<Rightarrow> jv \<Rightarrow> jv
     \<Rightarrow> card option" where
  "card_row J now nid uid finalType issuer last4 cardholderName finalExpiryMonth finalExpiryYear
     limit isDefault =
     (case (as_string (js_or issuer (JStr ''Unknown'')), as_string cardholderName,
            opt_int finalExpiryMonth, opt_int finalExpiryYear,
            (if truthy limit then map_option Some (parseFloat J limit) else Some None),
            (if loose_null isDefault then Some False else as_bool isDefault)) of
        (Some iss, Some name, Some em, Some ey, Some lm, Some dflt) \<Rightarrow>
          Some \<lparr>card_id = nid, card_userId = uid, card_name = name, card_type = finalType,
                card_last4 = (let l = toString J last4 in drop (length l - 4) l),
                card_issuer = Some iss, card_expiryMonth = em, card_expiryYear = ey,
                card_limit = lm, card_isDefault = dflt, card_createdAt = now\<rparr>
      | _ \<Rightarrow> None)"

text \<open>
  \<open>prisma.card.updateMany({ where: { userId, isDefault: true }, data: { isDefault: false } })\<close>
\<close>

definition unset_defaults :: "string \<Rightarrow> card list \<Rightarrow> card list" where
  "unset_defaults uid tbl =
     map (\<lambda>c. if card_userId c = uid \<and> card_isDefault c then c\<lparr>card_isDefault := False\<rparr> else c) tbl"


definition createCard :: "js \<Rightarrow> int \<Rightarrow> string \<Rightarrow> db \<Rightarrow> request \<Rightarrow> card reply \<times> db" where
  "createCard J now nid s req =
     (case auth_user req of
        None \<Rightarrow> (Fail 401 ''Unauthorized'', s)
      | Some uid \<Rightarrow>
          (let type = body req ''type''; issuer = body req ''issuer''; last4 = body req ''last4'';
               cardholderName = body req ''cardholderName'';
               expiryMonth = body req ''expiryMonth''; expiryYear = body req ''expiryYear'';
               limit = body req ''limit''; isDefault = body req ''isDefault'';
               cardType = body req ''cardType''; expiryDate = body req ''expiryDate'';
               finalType = toString J (js_or (js_or type cardType) (JStr []));
               finalExpiry = final_expiry J expiryMonth expiryYear expiryDate
           in if finalType = [] \<or> \<not> truthy last4 \<or> \<not> truthy cardholderName
              then (Fail 400 ''Type, last4, and cardholder name are required'', s)
              else if truthy limit \<and> le0 (parseFloat J limit)
              then (Fail 400 ''Card limit must be greater than 0'', s)
              else
                (let s1 = (if truthy isDefault
                           then s\<lparr>cards := unset_defaults uid (cards s)\<rparr> else s)
                 in case prisma_create card_id
                           (card_row J now nid uid finalType issuer last4 cardholderName
                              (fst finalExpiry) (snd finalExpiry) limit isDefault)
                           (cards s1) of
                      None \<Rightarrow> (Fail 500 ''Failed to create card'', s1)
                    | Some (created, tbl) \<Rightarrow> (Json 201 created, s1\<lparr>cards := tbl\<rparr>))))"

definition updateCard :: "js \<Rightarrow> db \<Rightarrow> request \<Rightarrow> card reply \<times> db" where
  "updateCard J s req =
     (let cardholderName = body req ''cardholderName''; limit = body req ''limit'';
          isDefault = body req ''isDefault''
      in case auth_user req of
        None \<Rightarrow> (Fail 401 ''Unauthorized'', s)
      | Some uid \<Rightarrow>
          (case find (\<lambda>c. card_id c = params_id req \<and> card_userId c = uid) (cards s) of
             None \<Rightarrow> (Fail 404 ''Card not found'', s)
           | Some found \<Rightarrow>
               (let s1 = (if truthy isDefault \<and> \<not> card_isDefault found
                          then s\<lparr>cards := unset_defaults uid (cards s)\<rparr> else s)
                in case prisma_update card_id (params_id req)
                          (apply_data
                             (spread (truthy cardholderName)
                                (put card_name_update (as_string cardholderName)) @
                              spread (truthy limit)
                                (put card_limit_update (map_option Some (parseFloat J limit))) @
                              spread (isDefault \<noteq> JUndef)
                                (put card_isDefault_update (as_bool isDefault))))
                          (cards s1) of
                     None \<Rightarrow> (Fail 500 ''Failed to update card'', s1)
                   | Some (updated, tbl) \<Rightarrow> (Json 200 updated, s1\<lparr>cards := tbl\<rparr>))))"

definition deleteCard :: "db \<Rightarrow> request \<Rightarrow> string reply \<times> db" where
  "deleteCard s req =
     (case auth_user req of
        None \<Rightarrow> (Fail 401 ''Unauthorized'', s)
      | Some uid \<Rightarrow>
          (case find (\<lambda>c. card_id c = params_id req \<and> card_userId c = uid) (cards s) of
             None \<Rightarrow> (Fail 404 ''Card not found'', s)
           | Some found \<Rightarrow>
               (case prisma_delete card_id (params_id req) (cards s) of
                  None \<Rightarrow> (Fail 500 ''Failed to delete card'', s)
                | Some tbl \<Rightarrow> (Json 200 ''Card deleted'', s\<lparr>cards := tbl\<rparr>))))"

section \<open>Lemmas on the store\<close>

lemma find_by_key:
  assumes "distinct (map key xs)" and "x \<in> set xs" and "P x"
    and "\<And>y. P y \<Longrightarrow> key y = key x"
  shows "find P xs = Some x"
  using assms(1,2)
proof (induction xs)
  case Nil
  then show ?case by simp
next
  case (Cons a xs)
  show ?case
  proof (cases "a = x")
    case True
    with assms(3) show ?thesis by simp
  next
    case False
    with Cons.prems have xin: "x \<in> set xs" and d: "distinct (map key xs)"
      and nk: "key a \<notin> key ` set xs" by auto
    have "\<not> P a"
    proof
      assume "P a"
      then have "key a = key x" by (rule assms(4))
      with nk xin show False by force
    qed
    moreover from d xin have "find P xs = Some x" by (rule Cons.IH)
    ultimately show ?thesis by simp
  qed
qed

lemma find_map_replace:
  assumes "distinct (map key xs)" and "x \<in> set xs" and "key x' = key x"
  shows "find (\<lambda>r. key r = key x) (map (\<lambda>r. if key r = key x then x' else r) xs) = Some x'"
  using assms
proof (induction xs)
  case Nil
  then show ?case by simp
next
  case (Cons a xs)
  then show ?case by (cases "key a = key x") auto
qed

lemma prisma_update_found:
  assumes "distinct (map key xs)" and "x \<in> set xs" and "key x = i" and "f x = Some x'"
  shows "prisma_update key i f xs = Some (x', map (\<lambda>r. if key r = i then x' else r) xs)"
proof -
  have "find (\<lambda>r. key r = i) xs = Some x"
    using assms(1,2) by (rule find_by_key) (simp_all add: assms(3))
  then show ?thesis by (simp add: prisma_update_def assms(4))
qed

lemma replace_in_set:
  assumes "x \<in> set xs" and "key x = i"
  shows "x' \<in> set (map (\<lambda>r. if key r = i then x' else r) xs)"
  using assms by (induction xs) auto

lemma replace_keys:
  assumes "key x' = i"
  shows "map key (map (\<lambda>r. if key r = i then x' else r) xs) = map key xs"
  using assms by (induction xs) auto

section \<open>Sample builtins for the closed examples\<close>

text \<open>
  The closed examples need one concrete \<open>J\<close>. \<open>js_sample\<close> reads a string of decimal
  digits as JavaScript does and answers NaN on every other string; it is exact on the
  strings the examples use (digit strings only), and the examples pass no number to
  \<open>toString\<close> and no string to \<open>Date\<close>.
\<close>

definition digit_of :: "char \<Rightarrow> nat option" where
  "digit_of c = (let n = (of_char c :: nat) in if 48 \<le> n \<and> n \<le> 57 then Some (n - 48) else None)"

fun digits_acc :: "string \<Rightarrow> nat \<Rightarrow> nat option" where
  "digits_acc [] acc = Some acc"
| "digits_acc (c # cs) acc =
     (case digit_of c of None \<Rightarrow> None | Some d \<Rightarrow> digits_acc cs (10 * acc + d))"

definition digits_val :: "string \<Rightarrow> nat option" where
  "digits_val s = (if s = [] then None else digits_acc s 0)"

definition js_sample :: js where
  "js_sample = \<lparr>parseFloat_str = (\<lambda>s. map_option of_nat (digits_val s)),
     parseInt_str = (\<lambda>s. map_option int (digits_val s)),
     parseInt10_str = (\<lambda>s. map_option int (digits_val s)),
     Number_str = (\<lambda>s. map_option of_nat (digits_val s)),
     toString_num = (\<lambda>r. []),
     Date_parse = (\<lambda>s. None)\<rparr>"

definition empty_db :: db where
  "empty_db = \<lparr>accounts = [], incomes = [], expenses = [], investments = [], budgets = [],
     cards = [], savingsGoals = [], transactions = []\<rparr>"

section \<open>Savings goals: contribute and withdraw\<close>

definition goal0 :: savingsGoal where
  "goal0 = \<lparr>goal_id = ''g1'', goal_userId = ''alice'', goal_title = ''Bike'',
     goal_description = None, goal_targetAmount = 100, goal_currentAmount = 80,
     goal_deadline = None, goal_priority = ''medium'', goal_status = ''active'',
     goal_category = Some ''General'', goal_icon = None, goal_createdAt = 0\<rparr>"

text \<open>
  C5. A goal with targetAmount 100, currentAmount 80 and status "active": contribute(30)
  answers currentAmount 110, status "completed" (and isComplete); the withdraw(200) that
  follows answers currentAmount 0 with the status still "completed", and that is the row
  the store then holds.
\<close>

theorem savings_contribute_then_withdraw:
  assumes d: "distinct (map goal_id (savingsGoals s))" and gin: "g \<in> set (savingsGoals s)"
    and owner: "goal_userId g = u" and u: "u \<noteq> []"
    and tgt: "goal_targetAmount g = 100" and cur: "goal_currentAmount g = 80"
    and st: "goal_status g = ''active''"
  shows "\<exists>s1 s2.
    contributeSavingsGoal J s (amount_req u (goal_id g) (JNum 30))
      = (Json 200 (g\<lparr>goal_currentAmount := 110, goal_status := ''completed''\<rparr>, 110, True), s1) \<and>
    withdrawSavingsGoal J s1 (amount_req u (goal_id g) (JNum 200))
      = (Json 200 (g\<lparr>goal_currentAmount := 0, goal_status := ''completed''\<rparr>, 0), s2) \<and>
    find (\<lambda>x. goal_id x = goal_id g) (savingsGoals s2)
      = Some (g\<lparr>goal_currentAmount := 0, goal_status := ''completed''\<rparr>)"
proof -
  let ?i = "goal_id g"
  let ?g1 = "g\<lparr>goal_currentAmount := 110, goal_status := ''completed''\<rparr>"
  let ?g2 = "g\<lparr>goal_currentAmount := 0, goal_status := ''completed''\<rparr>"
  let ?t1 = "map (\<lambda>r. if goal_id r = ?i then ?g1 else r) (savingsGoals s)"
  let ?t2 = "map (\<lambda>r. if goal_id r = ?i then ?g2 else r) ?t1"
  have f0: "find (\<lambda>x. goal_id x = ?i \<and> goal_userId x = u) (savingsGoals s) = Some g"
    using d gin by (rule find_by_key) (simp_all add: owner)
  have u0: "prisma_update goal_id ?i
      (\<lambda>x. Some (x\<lparr>goal_currentAmount := 110, goal_status := ''completed''\<rparr>)) (savingsGoals s)
      = Some (?g1, ?t1)"
    using d gin by (rule prisma_update_found) simp_all
  have c: "contributeSavingsGoal J s (amount_req u ?i (JNum 30))
      = (Json 200 (?g1, 110, True), s\<lparr>savingsGoals := ?t1\<rparr>)"
    using u f0 u0
    by (simp add: contributeSavingsGoal_def amount_req_def auth_user_def loose_null_def
        Number_def le0_def tgt cur progress_def)
  have d1: "distinct (map goal_id ?t1)"
    using d by (simp add: replace_keys del: map_map)
  have g1in: "?g1 \<in> set ?t1"
    using gin by (rule replace_in_set) simp
  have f1: "find (\<lambda>x. goal_id x = ?i \<and> goal_userId x = u) ?t1 = Some ?g1"
    using d1 g1in by (rule find_by_key) (simp_all add: owner)
  have u1: "prisma_update goal_id ?i (\<lambda>x. Some (x\<lparr>goal_currentAmount := 0\<rparr>)) ?t1
      = Some (?g2, ?t2)"
    using d1 g1in by (rule prisma_update_found) simp_all
  have w: "withdrawSavingsGoal J (s\<lparr>savingsGoals := ?t1\<rparr>) (amount_req u ?i (JNum 200))
      = (Json 200 (?g2, 0), s\<lparr>savingsGoals := ?t2\<rparr>)"
    using u f1 u1
    by (simp add: withdrawSavingsGoal_def amount_req_def auth_user_def loose_null_def
        Number_def le0_def tgt cur progress_def)
  have "find (\<lambda>x. goal_id x = goal_id ?g1)
      (map (\<lambda>r. if goal_id r = goal_id ?g1 then ?g2 else r) ?t1) = Some ?g2"
    using d1 g1in by (rule find_map_replace) simp
  then have f2: "find (\<lambda>x. goal_id x = ?i) ?t2 = Some ?g2" by simp
  from c w f2 show ?thesis by auto
qed

theorem savings_contribute_then_withdraw_witness:
  "\<exists>s1 s2.
    contributeSavingsGoal js_sample (empty_db\<lparr>savingsGoals := [goal0]\<rparr>)
        (amount_req ''alice'' ''g1'' (JNum 30))
      = (Json 200 (goal0\<lparr>goal_currentAmount := 110, goal_status := ''completed''\<rparr>, 110, True), s1) \<and>
    withdrawSavingsGoal js_sample s1 (amount_req ''alice'' ''g1'' (JNum 200))
      = (Json 200 (goal0\<lparr>goal_currentAmount := 0, goal_status := ''completed''\<rparr>, 0), s2) \<and>
    find (\<lambda>x. goal_id x = ''g1'') (savingsGoals s2)
      = Some (goal0\<lparr>goal_currentAmount := 0, goal_status := ''completed''\<rparr>)"
  using savings_contribute_then_withdraw
    [of "empty_db\<lparr>savingsGoals := [goal0]\<rparr>" goal0 "''alice''" js_sample]
  by (simp add: goal0_def)



section \<open>The ledger\<close>

text \<open>
  The ledger of a user as the dashboard reads it: the account row, or all zeros when the
  user has none.
\<close>

definition ledger :: "string \<Rightarrow> db \<Rightarrow> account" where
  "ledger uid s = (case find (\<lambda>a. acc_userId a = uid) (accounts s) of
     None \<Rightarrow> new_account uid | Some a \<Rightarrow> a)"

text \<open>A user who has just registered: no rows, a ledger of zeros.\<close>

definition fresh_db :: "string \<Rightarrow> db" where
  "fresh_db u = empty_db\<lparr>accounts := [new_account u]\<rparr>"

lemmas eval_defs = fresh_db_def empty_db_def new_account_def user_req_def obj_def
  auth_user_def truthy_def parseFloat_def le0_def prisma_create_def
  as_string_def as_opt_string_def date_or_now_def account_update_def prisma_update_def
  prisma_delete_def spread_def put_def apply_data_def opt_decimal_def Let_def

lemma find_replace_first:
  assumes "find (\<lambda>r. key r = i) xs = Some a" and "key r' = i"
  shows "find (\<lambda>r. key r = i) (map (\<lambda>x. if key x = i then r' else x) xs) = Some r'"
  using assms by (induction xs) (auto split: if_splits)

lemma account_update_eq:
  "account_update uid f tbl =
     (case find (\<lambda>a. acc_userId a = uid) tbl of
        None \<Rightarrow> None
      | Some a \<Rightarrow> Some (map (\<lambda>x. if acc_userId x = uid then f a else x) tbl))"
  by (simp add: account_update_def prisma_update_def split: option.splits)

lemma find_append_new:
  "find P (xs @ [x]) =
     (case find P xs of None \<Rightarrow> (if P x then Some x else None) | Some y \<Rightarrow> Some y)"
  by (induction xs) auto

lemma find_none_key:
  assumes "i \<notin> set (map key xs)"
  shows "find (\<lambda>r. key r = i \<and> Q r) xs = None" and "find (\<lambda>r. key r = i) xs = None"
  using assms by (induction xs) auto

lemma filter_key_append_new:
  assumes "i \<notin> set (map key xs)" and "key x = i"
  shows "filter (\<lambda>r. key r \<noteq> i) (xs @ [x]) = xs"
  using assms by (induction xs) auto

lemma account_update_found:
  assumes "find (\<lambda>a. acc_userId a = uid) accs = Some a" and "acc_userId (f a) = uid"
  shows "\<exists>accs'. account_update uid f accs = Some accs' \<and>
    find (\<lambda>a. acc_userId a = uid) accs' = Some (f a)"
  using assms by (simp add: account_update_eq find_replace_first)

lemma account_update_result:
  assumes "account_update uid f accs = Some accs'" and "\<And>a. acc_userId (f a) = acc_userId a"
  shows "\<exists>a. find (\<lambda>a. acc_userId a = uid) accs = Some a \<and>
    find (\<lambda>a. acc_userId a = uid) accs' = Some (f a)"
proof (cases "find (\<lambda>a. acc_userId a = uid) accs")
  case None
  with assms(1) show ?thesis by (simp add: account_update_eq)
next
  case (Some a)
  then have "acc_userId a = uid" by (auto dest: find_Some_iff[THEN iffD1])
  then have "acc_userId (f a) = uid" by (simp add: assms(2))
  from account_update_found[of uid accs a f, OF Some this] assms(1) Some show ?thesis by auto
qed

lemma find_ensured:
  "find (\<lambda>a. acc_userId a = uid)
     (case find (\<lambda>a. acc_userId a = uid) accs of
        None \<Rightarrow> accs @ [new_account uid] | Some account \<Rightarrow> accs)
   = Some (case find (\<lambda>a. acc_userId a = uid) accs of None \<Rightarrow> new_account uid | Some a \<Rightarrow> a)"
  by (simp add: find_append_new new_account_def split: option.splits)

lemma ledger_found:
  "find (\<lambda>a. acc_userId a = uid) (accounts s) = Some a \<Longrightarrow> ledger uid s = a"
  by (simp add: ledger_def)

lemma createIncome_Json:
  assumes c: "createIncome J now nid s req = (Json 201 r, s1)" and a: "auth_user req = Some uid"
  shows "\<exists>accs. inc_id r = nid \<and> inc_userId r = uid \<and> nid \<notin> set (map inc_id (incomes s)) \<and>
    parseFloat J (body req ''amount'') = Some (inc_amount r) \<and>
    account_update uid (\<lambda>a. a\<lparr>totalIncome := totalIncome a + inc_amount r, totalBalance := totalBalance a + inc_amount r\<rparr>)
      (case find (\<lambda>a. acc_userId a = uid) (accounts s) of
         None \<Rightarrow> accounts s @ [new_account uid] | Some account \<Rightarrow> accounts s) = Some accs \<and>
    s1 = s\<lparr>incomes := incomes s @ [r], accounts := accs\<rparr>"
  using c a
  by (auto simp: createIncome_def Let_def prisma_create_def income_row_def
      split: if_splits option.splits prod.splits)

lemma createIncome_ledger:
  assumes c: "createIncome J now nid s req = (Json 201 r, s1)" and a: "auth_user req = Some uid"
  shows "inc_id r = nid \<and> inc_userId r = uid \<and> nid \<notin> set (map inc_id (incomes s)) \<and>
    parseFloat J (body req ''amount'') = Some (inc_amount r) \<and>
    incomes s1 = incomes s @ [r] \<and>
    find (\<lambda>a. acc_userId a = uid) (accounts s1) = Some ((\<lambda>a. a\<lparr>totalIncome := totalIncome a + inc_amount r, totalBalance := totalBalance a + inc_amount r\<rparr>) (ledger uid s))"
proof -
  from createIncome_Json[OF c a] obtain accs where
    i: "inc_id r = nid" "inc_userId r = uid" "nid \<notin> set (map inc_id (incomes s))"
      "parseFloat J (body req ''amount'') = Some (inc_amount r)"
    and up: "account_update uid (\<lambda>a. a\<lparr>totalIncome := totalIncome a + inc_amount r, totalBalance := totalBalance a + inc_amount r\<rparr>)
      (case find (\<lambda>a. acc_userId a = uid) (accounts s) of
         None \<Rightarrow> accounts s @ [new_account uid] | Some account \<Rightarrow> accounts s) = Some accs"
    and s1: "s1 = s\<lparr>incomes := incomes s @ [r], accounts := accs\<rparr>"
    by blast
  from account_update_result[OF up] obtain a0 where
    "find (\<lambda>a. acc_userId a = uid)
      (case find (\<lambda>a. acc_userId a = uid) (accounts s) of
         None \<Rightarrow> accounts s @ [new_account uid] | Some account \<Rightarrow> accounts s) = Some a0"
    and f: "find (\<lambda>a. acc_userId a = uid) accs = Some ((\<lambda>a. a\<lparr>totalIncome := totalIncome a + inc_amount r, totalBalance := totalBalance a + inc_amount r\<rparr>) a0)"
    by auto
  then have "a0 = ledger uid s" by (simp add: find_ensured ledger_def)
  with f i s1 show ?thesis by simp
qed

lemma deleteIncome_ledger:
  assumes i: "inc_id r = nid" "inc_userId r = uid" "nid \<notin> set (map inc_id tbl)"
    and tbl: "incomes s1 = tbl @ [r]"
    and acc: "find (\<lambda>a. acc_userId a = uid) (accounts s1) = Some a"
    and rq: "auth_user req = Some uid" "params_id req = nid"
  shows "\<exists>s2. deleteIncome s1 req = (Json 200 ''Income deleted'', s2) \<and> incomes s2 = tbl \<and>
    find (\<lambda>a. acc_userId a = uid) (accounts s2) = Some ((\<lambda>a. a\<lparr>totalIncome := totalIncome a - inc_amount r, totalBalance := totalBalance a - inc_amount r\<rparr>) a)"
proof -
  have f1: "find (\<lambda>x. inc_id x = nid \<and> inc_userId x = uid) (incomes s1) = Some r"
    using i by (simp add: tbl find_append_new find_none_key)
  have f2: "find (\<lambda>x. inc_id x = nid) (tbl @ [r]) = Some r"
    using i by (simp add: find_append_new find_none_key)
  from acc have "acc_userId a = uid" by (auto dest: find_Some_iff[THEN iffD1])
  then have "acc_userId ((\<lambda>a. a\<lparr>totalIncome := totalIncome a - inc_amount r, totalBalance := totalBalance a - inc_amount r\<rparr>) a) = uid" by simp
  from account_update_found[of uid "accounts s1" a "(\<lambda>a. a\<lparr>totalIncome := totalIncome a - inc_amount r, totalBalance := totalBalance a - inc_amount r\<rparr>)", OF acc this]
  obtain accs' where up: "account_update uid (\<lambda>a. a\<lparr>totalIncome := totalIncome a - inc_amount r, totalBalance := totalBalance a - inc_amount r\<rparr>) (accounts s1) = Some accs'"
    and f3: "find (\<lambda>a. acc_userId a = uid) accs' = Some ((\<lambda>a. a\<lparr>totalIncome := totalIncome a - inc_amount r, totalBalance := totalBalance a - inc_amount r\<rparr>) a)" by blast
  have fl: "filter (\<lambda>x. inc_id x \<noteq> nid) (tbl @ [r]) = tbl"
    using i(3,1) by (rule filter_key_append_new)
  show ?thesis
    using f1 f2 acc up f3 fl rq
    by (simp add: deleteIncome_def prisma_delete_def tbl)
qed

lemma income_round_trip:
  assumes c: "createIncome J now nid s req = (Json 201 r, s1)" and a: "auth_user req = Some uid"
    and rq: "auth_user del = Some uid" "params_id del = nid"
  shows "parseFloat J (body req ''amount'') = Some (inc_amount r) \<and>
    totalIncome (ledger uid s1) = totalIncome (ledger uid s) + inc_amount r \<and>
    totalBalance (ledger uid s1) = totalBalance (ledger uid s) + inc_amount r \<and>
    (\<exists>s2. deleteIncome s1 del = (Json 200 ''Income deleted'', s2) \<and>
       totalIncome (ledger uid s2) = totalIncome (ledger uid s) \<and>
       totalBalance (ledger uid s2) = totalBalance (ledger uid s) \<and>
       incomes s2 = incomes s)"
proof -
  from createIncome_ledger[OF c a]
  have i: "inc_id r = nid" "inc_userId r = uid" "nid \<notin> set (map inc_id (incomes s))"
    and am: "parseFloat J (body req ''amount'') = Some (inc_amount r)"
    and tbl: "incomes s1 = incomes s @ [r]"
    and l1: "find (\<lambda>a. acc_userId a = uid) (accounts s1) = Some ((\<lambda>a. a\<lparr>totalIncome := totalIncome a + inc_amount r, totalBalance := totalBalance a + inc_amount r\<rparr>) (ledger uid s))"
    by simp_all
  from deleteIncome_ledger[OF i tbl l1 rq] obtain s2 where
    d: "deleteIncome s1 del = (Json 200 ''Income deleted'', s2)" "incomes s2 = incomes s"
    and l2: "find (\<lambda>a. acc_userId a = uid) (accounts s2)
      = Some ((\<lambda>a. a\<lparr>totalIncome := totalIncome a - inc_amount r, totalBalance := totalBalance a - inc_amount r\<rparr>) ((\<lambda>a. a\<lparr>totalIncome := totalIncome a + inc_amount r, totalBalance := totalBalance a + inc_amount r\<rparr>) (ledger uid s)))"
    by blast
  from l1 have "ledger uid s1 = (\<lambda>a. a\<lparr>totalIncome := totalIncome a + inc_amount r, totalBalance := totalBalance a + inc_amount r\<rparr>) (ledger uid s)" by (rule ledger_found)
  moreover from l2 have "ledger uid s2 = (\<lambda>a. a\<lparr>totalIncome := totalIncome a - inc_amount r, totalBalance := totalBalance a - inc_amount r\<rparr>) ((\<lambda>a. a\<lparr>totalIncome := totalIncome a + inc_amount r, totalBalance := totalBalance a + inc_amount r\<rparr>) (ledger uid s))" by (rule ledger_found)
  ultimately show ?thesis using am d by simp
qed

lemma createExpense_Json:
  assumes c: "createExpense J now nid s req = (Json 201 r, s1)" and a: "auth_user req = Some uid"
    and acc: "find (\<lambda>a. acc_userId a = uid) (accounts s) = Some a0"
  shows "\<exists>accs. exp_id r = nid \<and> exp_userId r = uid \<and> nid \<notin> set (map exp_id (expenses s)) \<and>
    parseFloat J (body req ''amount'') = Some (exp_amount r) \<and>
    account_update uid (\<lambda>a. a\<lparr>totalExpense := totalExpense a + exp_amount r, totalBalance := totalBalance a - exp_amount r\<rparr>) (accounts s) = Some accs \<and>
    s1 = s\<lparr>expenses := expenses s @ [r], accounts := accs\<rparr>"
  using c a acc
  by (auto simp: createExpense_def Let_def prisma_create_def expense_row_def
      split: if_splits option.splits prod.splits)

lemma createExpense_ledger:
  assumes c: "createExpense J now nid s req = (Json 201 r, s1)" and a: "auth_user req = Some uid"
    and acc: "find (\<lambda>a. acc_userId a = uid) (accounts s) = Some a0"
  shows "exp_id r = nid \<and> exp_userId r = uid \<and> nid \<notin> set (map exp_id (expenses s)) \<and>
    parseFloat J (body req ''amount'') = Some (exp_amount r) \<and>
    expenses s1 = expenses s @ [r] \<and>
    find (\<lambda>a. acc_userId a = uid) (accounts s1) = Some ((\<lambda>a. a\<lparr>totalExpense := totalExpense a + exp_amount r, totalBalance := totalBalance a - exp_amount r\<rparr>) (ledger uid s))"
proof -
  from createExpense_Json[OF c a acc] obtain accs where
    i: "exp_id r = nid" "exp_userId r = uid" "nid \<notin> set (map exp_id (expenses s))"
      "parseFloat J (body req ''amount'') = Some (exp_amount r)"
    and up: "account_update uid (\<lambda>a. a\<lparr>totalExpense := totalExpense a + exp_amount r, totalBalance := totalBalance a - exp_amount r\<rparr>) (accounts s) = Some accs"
    and s1: "s1 = s\<lparr>expenses := expenses s @ [r], accounts := accs\<rparr>"
    by blast
  from account_update_result[OF up] acc
  have f: "find (\<lambda>a. acc_userId a = uid) accs = Some ((\<lambda>a. a\<lparr>totalExpense := totalExpense a + exp_amount r, totalBalance := totalBalance a - exp_amount r\<rparr>) a0)"
    by auto
  from acc have "a0 = ledger uid s" by (simp add: ledger_def)
  with f i s1 show ?thesis by simp
qed

lemma deleteExpense_ledger:
  assumes i: "exp_id r = nid" "exp_userId r = uid" "nid \<notin> set (map exp_id tbl)"
    and tbl: "expenses s1 = tbl @ [r]"
    and acc: "find (\<lambda>a. acc_userId a = uid) (accounts s1) = Some a"
    and rq: "auth_user req = Some uid" "params_id req = nid"
  shows "\<exists>s2. deleteExpense s1 req = (Json 200 ''Expense deleted'', s2) \<and> expenses s2 = tbl \<and>
    find (\<lambda>a. acc_userId a = uid) (accounts s2) = Some ((\<lambda>a. a\<lparr>totalExpense := totalExpense a - exp_amount r, totalBalance := totalBalance a + exp_amount r\<rparr>) a)"
proof -
  have f1: "find (\<lambda>x. exp_id x = nid \<and> exp_userId x = uid) (expenses s1) = Some r"
    using i by (simp add: tbl find_append_new find_none_key)
  have f2: "find (\<lambda>x. exp_id x = nid) (tbl @ [r]) = Some r"
    using i by (simp add: find_append_new find_none_key)
  from acc have "acc_userId a = uid" by (auto dest: find_Some_iff[THEN iffD1])
  then have "acc_userId ((\<lambda>a. a\<lparr>totalExpense := totalExpense a - exp_amount r, totalBalance := totalBalance a + exp_amount r\<rparr>) a) = uid" by simp
  from account_update_found[of uid "accounts s1" a "(\<lambda>a. a\<lparr>totalExpense := totalExpense a - exp_amount r, totalBalance := totalBalance a + exp_amount r\<rparr>)", OF acc this]
  obtain accs' where up: "account_update uid (\<lambda>a. a\<lparr>totalExpense := totalExpense a - exp_amount r, totalBalance := totalBalance a + exp_amount r\<rparr>) (accounts s1) = Some accs'"
    and f3: "find (\<lambda>a. acc_userId a = uid) accs' = Some ((\<lambda>a. a\<lparr>totalExpense := totalExpense a - exp_amount r, totalBalance := totalBalance a + exp_amount r\<rparr>) a)" by blast
  have fl: "filter (\<lambda>x. exp_id x \<noteq> nid) (tbl @ [r]) = tbl"
    using i(3,1) by (rule filter_key_append_new)
  show ?thesis
    using f1 f2 acc up f3 fl rq
    by (simp add: deleteExpense_def prisma_delete_def tbl)
qed

lemma expense_round_trip:
  assumes c: "createExpense J now nid s req = (Json 201 r, s1)" and a: "auth_user req = Some uid"
    and rq: "auth_user del = Some uid" "params_id del = nid"
    and acc: "find (\<lambda>a. acc_userId a = uid) (accounts s) \<noteq> None"
  shows "parseFloat J (body req ''amount'') = Some (exp_amount r) \<and>
    totalExpense (ledger uid s1) = totalExpense (ledger uid s) + exp_amount r \<and>
    totalBalance (ledger uid s1) = totalBalance (ledger uid s) - exp_amount r \<and>
    (\<exists>s2. deleteExpense s1 del = (Json 200 ''Expense deleted'', s2) \<and>
       totalExpense (ledger uid s2) = totalExpense (ledger uid s) \<and>
       totalBalance (ledger uid s2) = totalBalance (ledger uid s) \<and>
       expenses s2 = expenses s)"
proof -
  from acc obtain a0 where acc0: "find (\<lambda>a. acc_userId a = uid) (accounts s) = Some a0" by auto
  from createExpense_ledger[OF c a acc0]
  have i: "exp_id r = nid" "exp_userId r = uid" "nid \<notin> set (map exp_id (expenses s))"
    and am: "parseFloat J (body req ''amount'') = Some (exp_amount r)"
    and tbl: "expenses s1 = expenses s @ [r]"
    and l1: "find (\<lambda>a. acc_userId a = uid) (accounts s1) = Some ((\<lambda>a. a\<lparr>totalExpense := totalExpense a + exp_amount r, totalBalance := totalBalance a - exp_amount r\<rparr>) (ledger uid s))"
    by simp_all
  from deleteExpense_ledger[OF i tbl l1 rq] obtain s2 where
    d: "deleteExpense s1 del = (Json 200 ''Expense deleted'', s2)" "expenses s2 = expenses s"
    and l2: "find (\<lambda>a. acc_userId a = uid) (accounts s2)
      = Some ((\<lambda>a. a\<lparr>totalExpense := totalExpense a - exp_amount r, totalBalance := totalBalance a + exp_amount r\<rparr>) ((\<lambda>a. a\<lparr>totalExpense := totalExpense a + exp_amount r, totalBalance := totalBalance a - exp_amount r\<rparr>) (ledger uid s)))"
    by blast
  from l1 have "ledger uid s1 = (\<lambda>a. a\<lparr>totalExpense := totalExpense a + exp_amount r, totalBalance := totalBalance a - exp_amount r\<rparr>) (ledger uid s)" by (rule ledger_found)
  moreover from l2 have "ledger uid s2 = (\<lambda>a. a\<lparr>totalExpense := totalExpense a - exp_amount r, totalBalance := totalBalance a + exp_amount r\<rparr>) ((\<lambda>a. a\<lparr>totalExpense := totalExpense a + exp_amount r, totalBalance := totalBalance a - exp_amount r\<rparr>) (ledger uid s))" by (rule ledger_found)
  ultimately show ?thesis using am d by simp
qed

lemma createInvestment_Json:
  assumes c: "createInvestment J now nid s req = (Json 201 r, s1)" and a: "auth_user req = Some uid"
  shows "\<exists>accs. inv_id r = nid \<and> inv_userId r = uid \<and> nid \<notin> set (map inv_id (investments s)) \<and>
    parseFloat J (body req ''amount'') = Some (inv_amount r) \<and>
    account_update uid (\<lambda>a. a\<lparr>totalInvested := totalInvested a + inv_amount r, totalBalance := totalBalance a - inv_amount r\<rparr>)
      (case find (\<lambda>a. acc_userId a = uid) (accounts s) of
         None \<Rightarrow> accounts s @ [new_account uid] | Some account \<Rightarrow> accounts s) = Some accs \<and>
    s1 = s\<lparr>investments := investments s @ [r], accounts := accs\<rparr>"
  using c a
  by (auto simp: createInvestment_def Let_def prisma_create_def investment_row_def
      split: if_splits option.splits prod.splits)

lemma createInvestment_ledger:
  assumes c: "createInvestment J now nid s req = (Json 201 r, s1)" and a: "auth_user req = Some uid"
  shows "inv_id r = nid \<and> inv_userId r = uid \<and> nid \<notin> set (map inv_id (investments s)) \<and>
    parseFloat J (body req ''amount'') = Some (inv_amount r) \<and>
    investments s1 = investments s @ [r] \<and>
    find (\<lambda>a. acc_userId a = uid) (accounts s1) = Some ((\<lambda>a. a\<lparr>totalInvested := totalInvested a + inv_amount r, totalBalance := totalBalance a - inv_amount r\<rparr>) (ledger uid s))"
proof -
  from createInvestment_Json[OF c a] obtain accs where
    i: "inv_id r = nid" "inv_userId r = uid" "nid \<notin> set (map inv_id (investments s))"
      "parseFloat J (body req ''amount'') = Some (inv_amount r)"
    and up: "account_update uid (\<lambda>a. a\<lparr>totalInvested := totalInvested a + inv_amount r, totalBalance := totalBalance a - inv_amount r\<rparr>)
      (case find (\<lambda>a. acc_userId a = uid) (accounts s) of
         None \<Rightarrow> accounts s @ [new_account uid] | Some account \<Rightarrow> accounts s) = Some accs"
    and s1: "s1 = s\<lparr>investments := investments s @ [r], accounts := accs\<rparr>"
    by blast
  from account_update_result[OF up] obtain a0 where
    "find (\<lambda>a. acc_userId a = uid)
      (case find (\<lambda>a. acc_userId a = uid) (accounts s) of
         None \<Rightarrow> accounts s @ [new_account uid] | Some account \<Rightarrow> accounts s) = Some a0"
    and f: "find (\<lambda>a. acc_userId a = uid) accs = Some ((\<lambda>a. a\<lparr>totalInvested := totalInvested a + inv_amount r, totalBalance := totalBalance a - inv_amount r\<rparr>) a0)"
    by auto
  then have "a0 = ledger uid s" by (simp add: find_ensured ledger_def)
  with f i s1 show ?thesis by simp
qed

lemma deleteInvestment_ledger:
  assumes i: "inv_id r = nid" "inv_userId r = uid" "nid \<notin> set (map inv_id tbl)"
    and tbl: "investments s1 = tbl @ [r]"
    and acc: "find (\<lambda>a. acc_userId a = uid) (accounts s1) = Some a"
    and rq: "auth_user req = Some uid" "params_id req = nid"
  shows "\<exists>s2. deleteInvestment s1 req = (Json 200 ''Investment deleted'', s2) \<and> investments s2 = tbl \<and>
    find (\<lambda>a. acc_userId a = uid) (accounts s2) = Some ((\<lambda>a. a\<lparr>totalInvested := totalInvested a - inv_amount r, totalBalance := totalBalance a + inv_amount r\<rparr>) a)"
proof -
  have f1: "find (\<lambda>x. inv_id x = nid \<and> inv_userId x = uid) (investments s1) = Some r"
    using i by (simp add: tbl find_append_new find_none_key)
  have f2: "find (\<lambda>x. inv_id x = nid) (tbl @ [r]) = Some r"
    using i by (simp add: find_append_new find_none_key)
  from acc have "acc_userId a = uid" by (auto dest: find_Some_iff[THEN iffD1])
  then have "acc_userId ((\<lambda>a. a\<lparr>totalInvested := totalInvested a - inv_amount r, totalBalance := totalBalance a + inv_amount r\<rparr>) a) = uid" by simp
  from account_update_found[of uid "accounts s1" a "(\<lambda>a. a\<lparr>totalInvested := totalInvested a - inv_amount r, totalBalance := totalBalance a + inv_amount r\<rparr>)", OF acc this]
  obtain accs' where up: "account_update uid (\<lambda>a. a\<lparr>totalInvested := totalInvested a - inv_amount r, totalBalance := totalBalance a + inv_amount r\<rparr>) (accounts s1) = Some accs'"
    and f3: "find (\<lambda>a. acc_userId a = uid) accs' = Some ((\<lambda>a. a\<lparr>totalInvested := totalInvested a - inv_amount r, totalBalance := totalBalance a + inv_amount r\<rparr>) a)" by blast
  have fl: "filter (\<lambda>x. inv_id x \<noteq> nid) (tbl @ [r]) = tbl"
    using i(3,1) by (rule filter_key_append_new)
  show ?thesis
    using f1 f2 acc up f3 fl rq
    by (simp add: deleteInvestment_def prisma_delete_def tbl)
qed

lemma investment_round_trip:
  assumes c: "createInvestment J now nid s req = (Json 201 r, s1)" and a: "auth_user req = Some uid"
    and rq: "auth_user del = Some uid" "params_id del = nid"
  shows "parseFloat J (body req ''amount'') = Some (inv_amount r) \<and>
    totalInvested (ledger uid s1) = totalInvested (ledger uid s) + inv_amount r \<and>
    totalBalance (ledger uid s1) = totalBalance (ledger uid s) - inv_amount r \<and>
    (\<exists>s2. deleteInvestment s1 del = (Json 200 ''Investment deleted'', s2) \<and>
       totalInvested (ledger uid s2) = totalInvested (ledger uid s) \<and>
       totalBalance (ledger uid s2) = totalBalance (ledger uid s) \<and>
       investments s2 = investments s)"
proof -
  from createInvestment_ledger[OF c a]
  have i: "inv_id r = nid" "inv_userId r = uid" "nid \<notin> set (map inv_id (investments s))"
    and am: "parseFloat J (body req ''amount'') = Some (inv_amount r)"
    and tbl: "investments s1 = investments s @ [r]"
    and l1: "find (\<lambda>a. acc_userId a = uid) (accounts s1) = Some ((\<lambda>a. a\<lparr>totalInvested := totalInvested a + inv_amount r, totalBalance := totalBalance a - inv_amount r\<rparr>) (ledger uid s))"
    by simp_all
  from deleteInvestment_ledger[OF i tbl l1 rq] obtain s2 where
    d: "deleteInvestment s1 del = (Json 200 ''Investment deleted'', s2)" "investments s2 = investments s"
    and l2: "find (\<lambda>a. acc_userId a = uid) (accounts s2)
      = Some ((\<lambda>a. a\<lparr>totalInvested := totalInvested a - inv_amount r, totalBalance := totalBalance a + inv_amount r\<rparr>) ((\<lambda>a. a\<lparr>totalInvested := totalInvested a + inv_amount r, totalBalance := totalBalance a - inv_amount r\<rparr>) (ledger uid s)))"
    by blast
  from l1 have "ledger uid s1 = (\<lambda>a. a\<lparr>totalInvested := totalInvested a + inv_amount r, totalBalance := totalBalance a - inv_amount r\<rparr>) (ledger uid s)" by (rule ledger_found)
  moreover from l2 have "ledger uid s2 = (\<lambda>a. a\<lparr>totalInvested := totalInvested a - inv_amount r, totalBalance := totalBalance a + inv_amount r\<rparr>) ((\<lambda>a. a\<lparr>totalInvested := totalInvested a + inv_amount r, totalBalance := totalBalance a - inv_amount r\<rparr>) (ledger uid s))" by (rule ledger_found)
  ultimately show ?thesis using am d by simp
qed

section \<open>A fresh user's dashboard\<close>

definition scn_income :: "int \<Rightarrow> income" where
  "scn_income t = \<lparr>inc_id = ''i1'', inc_userId = ''alice'', inc_title = ''Salary'',
     inc_source = ''Job'', inc_amount = 500, inc_date = t, inc_frequency = None,
     inc_description = None\<rparr>"

definition scn_expense :: "int \<Rightarrow> expense" where
  "scn_expense t = \<lparr>exp_id = ''e1'', exp_userId = ''alice'', exp_title = ''Rent'',
     exp_category = ''Home'', exp_amount = 120, exp_date = t, exp_paymentMethod = None,
     exp_description = None\<rparr>"

definition scn_investment :: "int \<Rightarrow> investment" where
  "scn_investment t = \<lparr>inv_id = ''v1'', inv_userId = ''alice'', inv_title = ''Fund'',
     inv_area = ''Stocks'', inv_amount = 200, inv_quantity = None, inv_purchasePrice = None,
     inv_currentValue = Some 200, inv_date = t, inv_description = None\<rparr>"

definition scn_account :: "rat \<Rightarrow> rat \<Rightarrow> rat \<Rightarrow> rat \<Rightarrow> account" where
  "scn_account b i e v = \<lparr>acc_userId = ''alice'', totalBalance = b, totalIncome = i,
     totalExpense = e, totalSavings = 0, totalInvested = v\<rparr>"

definition income_body :: "(string \<times> jv) list" where
  "income_body = [(''title'', JStr ''Salary''), (''source'', JStr ''Job''), (''amount'', JNum 500)]"

definition expense_body :: "(string \<times> jv) list" where
  "expense_body = [(''title'', JStr ''Rent''), (''category'', JStr ''Home''), (''amount'', JNum 120)]"

definition investment_body :: "(string \<times> jv) list" where
  "investment_body = [(''title'', JStr ''Fund''), (''area'', JStr ''Stocks''), (''amount'', JNum 200)]"

lemma scn_step1:
  "createIncome J t1 ''i1'' (fresh_db ''alice'') (user_req ''alice'' [] income_body)
   = (Json 201 (scn_income t1),
      empty_db\<lparr>accounts := [scn_account 500 500 0 0], incomes := [scn_income t1]\<rparr>)"
  by (simp add: createIncome_def income_row_def scn_income_def scn_account_def income_body_def eval_defs)

lemma scn_step2:
  "createExpense J t2 ''e1''
     (empty_db\<lparr>accounts := [scn_account 500 500 0 0], incomes := [scn_income t1]\<rparr>)
     (user_req ''alice'' [] expense_body)
   = (Json 201 (scn_expense t2),
      empty_db\<lparr>accounts := [scn_account 380 500 120 0], incomes := [scn_income t1],
        expenses := [scn_expense t2]\<rparr>)"
  by (simp add: createExpense_def expense_row_def scn_expense_def scn_account_def expense_body_def eval_defs)

lemma scn_step3:
  "createInvestment J t3 ''v1''
     (empty_db\<lparr>accounts := [scn_account 380 500 120 0], incomes := [scn_income t1],
        expenses := [scn_expense t2]\<rparr>)
     (user_req ''alice'' [] investment_body)
   = (Json 201 (scn_investment t3),
      empty_db\<lparr>accounts := [scn_account 180 500 120 200], incomes := [scn_income t1],
        expenses := [scn_expense t2], investments := [scn_investment t3]\<rparr>)"
  by (simp add: createInvestment_def investment_row_def scn_investment_def scn_account_def investment_body_def eval_defs)

lemma scn_step4:
  "getDashboard tz now
     (empty_db\<lparr>accounts := [scn_account 180 500 120 200], incomes := [scn_income t1],
        expenses := [scn_expense t2], investments := [scn_investment t3]\<rparr>)
     (user_req ''alice'' [] [])
   = (Json 200
        \<lparr>dash_totalBalance = 180, dash_totalIncome = 500, dash_totalExpense = 120,
         dash_totalSavings = 0, dash_totalInvested = 200, totalIncomeSum = 500,
         totalExpenseSum = 120, totalInvestmentSum = 200, balanceLeft = 180,
         recommendedSavings = 18,
         weeklyStats = weeklyStats_of tz now [scn_income t1] [scn_expense t2]\<rparr>,
      empty_db\<lparr>accounts := [scn_account 180 500 120 200], incomes := [scn_income t1],
        expenses := [scn_expense t2], investments := [scn_investment t3]\<rparr>)"
  by (simp add: getDashboard_def incomes_of_def expenses_of_def investments_of_def Math_round_def
     floor_eq_iff scn_income_def scn_expense_def scn_investment_def scn_account_def eval_defs)

text \<open>
  C3. For a fresh user (no rows, a ledger of zeros), creating Income{amount: 500}, then
  Expense{amount: 120}, then Investment{amount: 200} all succeed, and the dashboard then
  reports totalBalance 180, totalIncomeSum 500, totalExpenseSum 120, totalInvestmentSum 200,
  balanceLeft 180 and recommendedSavings 18, which is max(0, 0.10 * balanceLeft) rounded
  to two decimals. It holds for every clock reading, time zone and choice of the builtins.
\<close>

theorem dashboard_fresh_user_scenario:
  "\<exists>i e v s1 s2 s3 d.
     createIncome J t1 ''i1'' (fresh_db ''alice'') (user_req ''alice'' [] income_body)
       = (Json 201 i, s1) \<and> inc_amount i = 500 \<and>
     createExpense J t2 ''e1'' s1 (user_req ''alice'' [] expense_body)
       = (Json 201 e, s2) \<and> exp_amount e = 120 \<and>
     createInvestment J t3 ''v1'' s2 (user_req ''alice'' [] investment_body)
       = (Json 201 v, s3) \<and> inv_amount v = 200 \<and>
     getDashboard tz now s3 (user_req ''alice'' [] []) = (Json 200 d, s3) \<and>
     dash_totalBalance d = 180 \<and> totalIncomeSum d = 500 \<and> totalExpenseSum d = 120 \<and>
     totalInvestmentSum d = 200 \<and> balanceLeft d = 180 \<and> recommendedSavings d = 18 \<and>
     recommendedSavings d = of_int (Math_round (max 0 (1 / 10 * balanceLeft d) * 100)) / 100"
  apply (rule exI[where x="scn_income t1"])
  apply (rule exI[where x="scn_expense t2"])
  apply (rule exI[where x="scn_investment t3"])
  apply (rule exI[where x="empty_db\<lparr>accounts := [scn_account 500 500 0 0], incomes := [scn_income t1]\<rparr>"])
  apply (rule exI[where x="empty_db\<lparr>accounts := [scn_account 380 500 120 0], incomes := [scn_income t1],
        expenses := [scn_expense t2]\<rparr>"])
  apply (rule exI[where x="empty_db\<lparr>accounts := [scn_account 180 500 120 200], incomes := [scn_income t1],
        expenses := [scn_expense t2], investments := [scn_investment t3]\<rparr>"])
  apply (simp only: scn_step1 scn_step2 scn_step3 scn_step4)
  apply (simp add: scn_income_def scn_expense_def scn_investment_def Math_round_def floor_eq_iff)
  done

text \<open>
  The scenario with the sample builtins, every clock reading 0 and the time zone UTC: the
  three requests pass the validation of their handlers (title, source or category or area,
  and amount are supplied and truthy), so the replies are the 201 and 200 of the scenario.
\<close>

theorem dashboard_fresh_user_scenario_witness:
  "truthy (body (user_req ''alice'' [] income_body) ''title'') \<and>
   truthy (body (user_req ''alice'' [] income_body) ''source'') \<and>
   truthy (body (user_req ''alice'' [] income_body) ''amount'') \<and>
   truthy (body (user_req ''alice'' [] expense_body) ''title'') \<and>
   truthy (body (user_req ''alice'' [] expense_body) ''category'') \<and>
   truthy (body (user_req ''alice'' [] expense_body) ''amount'') \<and>
   truthy (body (user_req ''alice'' [] investment_body) ''title'') \<and>
   truthy (body (user_req ''alice'' [] investment_body) ''area'') \<and>
   truthy (body (user_req ''alice'' [] investment_body) ''amount'') \<and>
   (\<exists>i e v s1 s2 s3 d.
     createIncome js_sample 0 ''i1'' (fresh_db ''alice'') (user_req ''alice'' [] income_body)
       = (Json 201 i, s1) \<and> inc_amount i = 500 \<and>
     createExpense js_sample 0 ''e1'' s1 (user_req ''alice'' [] expense_body)
       = (Json 201 e, s2) \<and> exp_amount e = 120 \<and>
     createInvestment js_sample 0 ''v1'' s2 (user_req ''alice'' [] investment_body)
       = (Json 201 v, s3) \<and> inv_amount v = 200 \<and>
     getDashboard 0 0 s3 (user_req ''alice'' [] []) = (Json 200 d, s3) \<and>
     dash_totalBalance d = 180 \<and> totalIncomeSum d = 500 \<and> totalExpenseSum d = 120 \<and>
     totalInvestmentSum d = 200 \<and> balanceLeft d = 180 \<and> recommendedSavings d = 18 \<and>
     recommendedSavings d = of_int (Math_round (max 0 (1 / 10 * balanceLeft d) * 100)) / 100)"
proof -
  have v: "truthy (body (user_req ''alice'' [] income_body) ''title'')"
    "truthy (body (user_req ''alice'' [] income_body) ''source'')"
    "truthy (body (user_req ''alice'' [] income_body) ''amount'')"
    "truthy (body (user_req ''alice'' [] expense_body) ''title'')"
    "truthy (body (user_req ''alice'' [] expense_body) ''category'')"
    "truthy (body (user_req ''alice'' [] expense_body) ''amount'')"
    "truthy (body (user_req ''alice'' [] investment_body) ''title'')"
    "truthy (body (user_req ''alice'' [] investment_body) ''area'')"
    "truthy (body (user_req ''alice'' [] investment_body) ''amount'')"
    by (simp_all add: income_body_def expense_body_def investment_body_def user_req_def
        obj_def truthy_def)
  from v dashboard_fresh_user_scenario[where J = js_sample and ?t1.0 = 0 and ?t2.0 = 0
      and ?t3.0 = 0 and tz = 0 and now = 0]
  show ?thesis by blast
qed

section \<open>Updates and the ledger\<close>

lemma updateIncome_accounts: "accounts (snd (updateIncome J s req)) = accounts s"
  by (simp add: updateIncome_def Let_def split: option.splits prod.splits)

lemma updateExpense_accounts: "accounts (snd (updateExpense J s req)) = accounts s"
  by (simp add: updateExpense_def Let_def split: option.splits prod.splits)

lemma updateInvestment_accounts: "accounts (snd (updateInvestment J s req)) = accounts s"
  by (simp add: updateInvestment_def Let_def split: option.splits prod.splits)

lemma drift_step2:
  "updateIncome J
     (empty_db\<lparr>accounts := [scn_account 500 500 0 0], incomes := [scn_income t1]\<rparr>)
     (user_req ''alice'' ''i1'' [(''amount'', JNum 700)])
   = (Json 200 ((scn_income t1)\<lparr>inc_amount := 700\<rparr>),
      empty_db\<lparr>accounts := [scn_account 500 500 0 0],
        incomes := [(scn_income t1)\<lparr>inc_amount := 700\<rparr>]\<rparr>)"
  by (simp add: updateIncome_def scn_income_def scn_account_def eval_defs)

lemma drift_step3:
  "getDashboard tz now
     (empty_db\<lparr>accounts := [scn_account 500 500 0 0],
        incomes := [(scn_income t1)\<lparr>inc_amount := 700\<rparr>]\<rparr>)
     (user_req ''alice'' [] [])
   = (Json 200
        \<lparr>dash_totalBalance = 500, dash_totalIncome = 500, dash_totalExpense = 0,
         dash_totalSavings = 0, dash_totalInvested = 0, totalIncomeSum = 700,
         totalExpenseSum = 0, totalInvestmentSum = 0, balanceLeft = 700,
         recommendedSavings = 70,
         weeklyStats = weeklyStats_of tz now [(scn_income t1)\<lparr>inc_amount := 700\<rparr>] []\<rparr>,
      empty_db\<lparr>accounts := [scn_account 500 500 0 0],
        incomes := [(scn_income t1)\<lparr>inc_amount := 700\<rparr>]\<rparr>)"
  by (simp add: getDashboard_def incomes_of_def expenses_of_def investments_of_def Math_round_def
     floor_eq_iff scn_income_def scn_account_def eval_defs)

text \<open>
  C9. No update of an income, an expense or an investment touches the account table,
  whatever the request and whatever its outcome: the four totals of every ledger stay as
  they were. So an update that changes an amount leaves the ledger behind the rows: after
  Income{amount: 500} is created for a fresh user and its amount is updated to 700, the
  ledger still says totalIncome 500 while the incomes sum to 700.
\<close>

theorem updates_leave_ledger_untouched:
  "accounts (snd (updateIncome J s req)) = accounts s \<and>
   accounts (snd (updateExpense J s req)) = accounts s \<and>
   accounts (snd (updateInvestment J s req)) = accounts s \<and>
   (\<exists>i s1 i' s2 d.
      createIncome J t1 ''i1'' (fresh_db ''alice'') (user_req ''alice'' [] income_body)
        = (Json 201 i, s1) \<and> inc_amount i = 500 \<and>
      updateIncome J s1 (user_req ''alice'' ''i1'' [(''amount'', JNum 700)]) = (Json 200 i', s2) \<and>
      inc_amount i' = 700 \<and> accounts s2 = accounts s1 \<and>
      getDashboard tz now s2 (user_req ''alice'' [] []) = (Json 200 d, s2) \<and>
      dash_totalIncome d = 500 \<and> totalIncomeSum d = 700)"
proof -
  have "\<exists>i s1 i' s2 d.
      createIncome J t1 ''i1'' (fresh_db ''alice'') (user_req ''alice'' [] income_body)
        = (Json 201 i, s1) \<and> inc_amount i = 500 \<and>
      updateIncome J s1 (user_req ''alice'' ''i1'' [(''amount'', JNum 700)]) = (Json 200 i', s2) \<and>
      inc_amount i' = 700 \<and> accounts s2 = accounts s1 \<and>
      getDashboard tz now s2 (user_req ''alice'' [] []) = (Json 200 d, s2) \<and>
      dash_totalIncome d = 500 \<and> totalIncomeSum d = 700"
    apply (rule exI[where x="scn_income t1"])
    apply (rule exI[where x="empty_db\<lparr>accounts := [scn_account 500 500 0 0], incomes := [scn_income t1]\<rparr>"])
    apply (rule exI[where x="(scn_income t1)\<lparr>inc_amount := 700\<rparr>"])
    apply (rule exI[where x="empty_db\<lparr>accounts := [scn_account 500 500 0 0],
        incomes := [(scn_income t1)\<lparr>inc_amount := 700\<rparr>]\<rparr>"])
    apply (simp only: scn_step1 drift_step2 drift_step3)
    apply (simp add: scn_income_def)
    done
  then show ?thesis
    using updateIncome_accounts[of J s req] updateExpense_accounts[of J s req]
      updateInvestment_accounts[of J s req]
    by blast
qed

text \<open>
  The same with the sample builtins, the clock at 0 and the time zone UTC, the store being
  the one the created income leaves and the request the update of its amount to 700.
\<close>

theorem updates_leave_ledger_untouched_witness:
  "truthy (body (user_req ''alice'' [] income_body) ''title'') \<and>
   truthy (body (user_req ''alice'' [] income_body) ''source'') \<and>
   truthy (body (user_req ''alice'' [] income_body) ''amount'') \<and>
   accounts (snd (updateIncome js_sample
      (empty_db\<lparr>accounts := [scn_account 500 500 0 0], incomes := [scn_income 0]\<rparr>)
      (user_req ''alice'' ''i1'' [(''amount'', JNum 700)])))
     = [scn_account 500 500 0 0] \<and>
   accounts (snd (updateExpense js_sample
      (empty_db\<lparr>accounts := [scn_account 500 500 0 0], incomes := [scn_income 0]\<rparr>)
      (user_req ''alice'' ''i1'' [(''amount'', JNum 700)])))
     = [scn_account 500 500 0 0] \<and>
   accounts (snd (updateInvestment js_sample
      (empty_db\<lparr>accounts := [scn_account 500 500 0 0], incomes := [scn_income 0]\<rparr>)
      (user_req ''alice'' ''i1'' [(''amount'', JNum 700)])))
     = [scn_account 500 500 0 0] \<and>
   (\<exists>i s1 i' s2 d.
      createIncome js_sample 0 ''i1'' (fresh_db ''alice'') (user_req ''alice'' [] income_body)
        = (Json 201 i, s1) \<and> inc_amount i = 500 \<and>
      updateIncome js_sample s1 (user_req ''alice'' ''i1'' [(''amount'', JNum 700)])
        = (Json 200 i', s2) \<and>
      inc_amount i' = 700 \<and> accounts s2 = accounts s1 \<and>
      getDashboard 0 0 s2 (user_req ''alice'' [] []) = (Json 200 d, s2) \<and>
      dash_totalIncome d = 500 \<and> totalIncomeSum d = 700)"
proof -
  have v: "truthy (body (user_req ''alice'' [] income_body) ''title'')"
    "truthy (body (user_req ''alice'' [] income_body) ''source'')"
    "truthy (body (user_req ''alice'' [] income_body) ''amount'')"
    by (simp_all add: income_body_def user_req_def obj_def truthy_def)
  have a: "accounts (empty_db\<lparr>accounts := [scn_account 500 500 0 0], incomes := [scn_income 0]\<rparr>)
      = [scn_account 500 500 0 0]"
    by (simp add: empty_db_def)
  note th = updates_leave_ledger_untouched[where J = js_sample
      and s = "empty_db\<lparr>accounts := [scn_account 500 500 0 0], incomes := [scn_income 0]\<rparr>"
      and req = "user_req ''alice'' ''i1'' [(''amount'', JNum 700)]"
      and ?t1.0 = 0 and tz = 0 and now = 0]
  from v th show ?thesis unfolding a by blast
qed

section \<open>The ledger follows creations and deletions\<close>

text \<open>
  What holds on every path: a created income or investment moves its total and the balance
  by its amount, a created expense does so when the user has an account row, and deleting
  the row right away gives both fields their old values back (a missing account row
  reading as zeros).
\<close>

lemma ledger_round_trip:
  assumes a: "auth_user req = Some uid"
    and d: "auth_user del = Some uid" "params_id del = nid"
  shows
    "(createIncome J now nid s req = (Json 201 i, si) \<longrightarrow>
        parseFloat J (body req ''amount'') = Some (inc_amount i) \<and>
        totalIncome (ledger uid si) = totalIncome (ledger uid s) + inc_amount i \<and>
        totalBalance (ledger uid si) = totalBalance (ledger uid s) + inc_amount i \<and>
        (\<exists>s2. deleteIncome si del = (Json 200 ''Income deleted'', s2) \<and>
           totalIncome (ledger uid s2) = totalIncome (ledger uid s) \<and>
           totalBalance (ledger uid s2) = totalBalance (ledger uid s) \<and>
           incomes s2 = incomes s)) \<and>
     (createExpense J now nid s req = (Json 201 e, se) \<and>
      find (\<lambda>a. acc_userId a = uid) (accounts s) \<noteq> None \<longrightarrow>
        parseFloat J (body req ''amount'') = Some (exp_amount e) \<and>
        totalExpense (ledger uid se) = totalExpense (ledger uid s) + exp_amount e \<and>
        totalBalance (ledger uid se) = totalBalance (ledger uid s) - exp_amount e \<and>
        (\<exists>s2. deleteExpense se del = (Json 200 ''Expense deleted'', s2) \<and>
           totalExpense (ledger uid s2) = totalExpense (ledger uid s) \<and>
           totalBalance (ledger uid s2) = totalBalance (ledger uid s) \<and>
           expenses s2 = expenses s)) \<and>
     (createInvestment J now nid s req = (Json 201 v, sv) \<longrightarrow>
        parseFloat J (body req ''amount'') = Some (inv_amount v) \<and>
        totalInvested (ledger uid sv) = totalInvested (ledger uid s) + inv_amount v \<and>
        totalBalance (ledger uid sv) = totalBalance (ledger uid s) - inv_amount v \<and>
        (\<exists>s2. deleteInvestment sv del = (Json 200 ''Investment deleted'', s2) \<and>
           totalInvested (ledger uid s2) = totalInvested (ledger uid s) \<and>
           totalBalance (ledger uid s2) = totalBalance (ledger uid s) \<and>
           investments s2 = investments s))"
  using income_round_trip[OF _ a d, of J now s i si]
    expense_round_trip[OF _ a d, of J now s e se]
    investment_round_trip[OF _ a d, of J now s v sv]
  by blast

definition all_body :: "(string \<times> jv) list" where
  "all_body = [(''title'', JStr ''Entry''), (''source'', JStr ''Job''), (''category'', JStr ''Home''),
     (''area'', JStr ''Stocks''), (''amount'', JNum 120)]"

definition bob_expense :: expense where
  "bob_expense = \<lparr>exp_id = ''e1'', exp_userId = ''bob'', exp_title = ''Entry'',
     exp_category = ''Home'', exp_amount = 120, exp_date = 0, exp_paymentMethod = None,
     exp_description = None\<rparr>"

text \<open>
  C2. The ledger is to move by the amount of every created expense. For a user who has no
  account row it does not: \<open>createExpense\<close> answers 201 and stores the expense of 120,
  and the user's totalExpense and totalBalance read 0 before and after, because the handler
  updates the account only if it finds one, where \<open>createIncome\<close> and
  \<open>createInvestment\<close> create the missing row first.
\<close>

theorem expense_without_ledger_row:
  "createExpense js_sample 0 ''e1'' empty_db (user_req ''bob'' [] all_body)
     = (Json 201 bob_expense, empty_db\<lparr>expenses := [bob_expense]\<rparr>) \<and>
   exp_amount bob_expense = 120 \<and>
   totalExpense (ledger ''bob'' empty_db) = 0 \<and>
   totalExpense (ledger ''bob'' (empty_db\<lparr>expenses := [bob_expense]\<rparr>)) = 0 \<and>
   totalBalance (ledger ''bob'' empty_db) = 0 \<and>
   totalBalance (ledger ''bob'' (empty_db\<lparr>expenses := [bob_expense]\<rparr>)) = 0"
  by (simp add: createExpense_def expense_row_def bob_expense_def all_body_def ledger_def eval_defs)

text \<open>
  The request of this run passes the validation of \<open>createExpense\<close> (title, category
  and amount are supplied and truthy, the amount is above 0), and the store has no account
  row: the run takes the branch that skips the ledger.
\<close>

theorem expense_without_ledger_row_witness:
  "truthy (body (user_req ''bob'' [] all_body) ''title'') \<and>
   truthy (body (user_req ''bob'' [] all_body) ''category'') \<and>
   truthy (body (user_req ''bob'' [] all_body) ''amount'') \<and>
   \<not> le0 (parseFloat js_sample (body (user_req ''bob'' [] all_body) ''amount'')) \<and>
   accounts empty_db = [] \<and>
   fst (createExpense js_sample 0 ''e1'' empty_db (user_req ''bob'' [] all_body))
     = Json 201 bob_expense \<and>
   accounts (snd (createExpense js_sample 0 ''e1'' empty_db (user_req ''bob'' [] all_body))) = []"
  using expense_without_ledger_row
  by (simp add: all_body_def user_req_def obj_def truthy_def le0_def parseFloat_def empty_db_def)

lemma wit_income:
  "createIncome js_sample 0 ''n1'' (fresh_db ''alice'') (user_req ''alice'' [] all_body)
   = (Json 201 \<lparr>inc_id = ''n1'', inc_userId = ''alice'', inc_title = ''Entry'',
        inc_source = ''Job'', inc_amount = 120, inc_date = 0, inc_frequency = None,
        inc_description = None\<rparr>,
      empty_db\<lparr>accounts := [\<lparr>acc_userId = ''alice'', totalBalance = 120, totalIncome = 120,
          totalExpense = 0, totalSavings = 0, totalInvested = 0\<rparr>],
        incomes := [\<lparr>inc_id = ''n1'', inc_userId = ''alice'', inc_title = ''Entry'',
        inc_source = ''Job'', inc_amount = 120, inc_date = 0, inc_frequency = None,
        inc_description = None\<rparr>]\<rparr>)"
  by (simp add: createIncome_def income_row_def all_body_def eval_defs)

lemma wit_expense:
  "createExpense js_sample 0 ''n1'' (fresh_db ''alice'') (user_req ''alice'' [] all_body)
   = (Json 201 \<lparr>exp_id = ''n1'', exp_userId = ''alice'', exp_title = ''Entry'',
        exp_category = ''Home'', exp_amount = 120, exp_date = 0, exp_paymentMethod = None,
        exp_description = None\<rparr>,
      empty_db\<lparr>accounts := [\<lparr>acc_userId = ''alice'', totalBalance = -120, totalIncome = 0,
          totalExpense = 120, totalSavings = 0, totalInvested = 0\<rparr>],
        expenses := [\<lparr>exp_id = ''n1'', exp_userId = ''alice'', exp_title = ''Entry'',
        exp_category = ''Home'', exp_amount = 120, exp_date = 0, exp_paymentMethod = None,
        exp_description = None\<rparr>]\<rparr>)"
  by (simp add: createExpense_def expense_row_def all_body_def eval_defs)

lemma wit_investment:
  "createInvestment js_sample 0 ''n1'' (fresh_db ''alice'') (user_req ''alice'' [] all_body)
   = (Json 201 \<lparr>inv_id = ''n1'', inv_userId = ''alice'', inv_title = ''Entry'',
        inv_area = ''Stocks'', inv_amount = 120, inv_quantity = None, inv_purchasePrice = None,
        inv_currentValue = Some 120, inv_date = 0, inv_description = None\<rparr>,
      empty_db\<lparr>accounts := [\<lparr>acc_userId = ''alice'', totalBalance = -120, totalIncome = 0,
          totalExpense = 0, totalSavings = 0, totalInvested = 120\<rparr>],
        investments := [\<lparr>inv_id = ''n1'', inv_userId = ''alice'', inv_title = ''Entry'',
        inv_area = ''Stocks'', inv_amount = 120, inv_quantity = None, inv_purchasePrice = None,
        inv_currentValue = Some 120, inv_date = 0, inv_description = None\<rparr>]\<rparr>)"
  by (simp add: createInvestment_def investment_row_def all_body_def eval_defs)

lemma ledger_round_trip_example:
  "(\<exists>i si s2.
      createIncome js_sample 0 ''n1'' (fresh_db ''alice'') (user_req ''alice'' [] all_body)
        = (Json 201 i, si) \<and> inc_amount i = 120 \<and>
      totalIncome (ledger ''alice'' si) = 120 \<and> totalBalance (ledger ''alice'' si) = 120 \<and>
      deleteIncome si (user_req ''alice'' ''n1'' []) = (Json 200 ''Income deleted'', s2) \<and>
      totalIncome (ledger ''alice'' s2) = 0 \<and> totalBalance (ledger ''alice'' s2) = 0) \<and>
   (\<exists>e se s2.
      createExpense js_sample 0 ''n1'' (fresh_db ''alice'') (user_req ''alice'' [] all_body)
        = (Json 201 e, se) \<and> exp_amount e = 120 \<and>
      totalExpense (ledger ''alice'' se) = 120 \<and> totalBalance (ledger ''alice'' se) = - 120 \<and>
      deleteExpense se (user_req ''alice'' ''n1'' []) = (Json 200 ''Expense deleted'', s2) \<and>
      totalExpense (ledger ''alice'' s2) = 0 \<and> totalBalance (ledger ''alice'' s2) = 0) \<and>
   (\<exists>v sv s2.
      createInvestment js_sample 0 ''n1'' (fresh_db ''alice'') (user_req ''alice'' [] all_body)
        = (Json 201 v, sv) \<and> inv_amount v = 120 \<and>
      totalInvested (ledger ''alice'' sv) = 120 \<and> totalBalance (ledger ''alice'' sv) = - 120 \<and>
      deleteInvestment sv (user_req ''alice'' ''n1'' []) = (Json 200 ''Investment deleted'', s2) \<and>
      totalInvested (ledger ''alice'' s2) = 0 \<and> totalBalance (ledger ''alice'' s2) = 0)"
proof -
  let ?i = "\<lparr>inc_id = ''n1'', inc_userId = ''alice'', inc_title = ''Entry'',
        inc_source = ''Job'', inc_amount = 120, inc_date = 0, inc_frequency = None,
        inc_description = None\<rparr>"
  let ?e = "\<lparr>exp_id = ''n1'', exp_userId = ''alice'', exp_title = ''Entry'',
        exp_category = ''Home'', exp_amount = 120, exp_date = 0, exp_paymentMethod = None,
        exp_description = None\<rparr>"
  let ?v = "\<lparr>inv_id = ''n1'', inv_userId = ''alice'', inv_title = ''Entry'',
        inv_area = ''Stocks'', inv_amount = 120, inv_quantity = None, inv_purchasePrice = None,
        inv_currentValue = Some 120, inv_date = 0, inv_description = None\<rparr>"
  let ?si = "empty_db\<lparr>accounts := [\<lparr>acc_userId = ''alice'', totalBalance = 120, totalIncome = 120,
          totalExpense = 0, totalSavings = 0, totalInvested = 0\<rparr>], incomes := [?i]\<rparr>"
  let ?se = "empty_db\<lparr>accounts := [\<lparr>acc_userId = ''alice'', totalBalance = -120, totalIncome = 0,
          totalExpense = 120, totalSavings = 0, totalInvested = 0\<rparr>], expenses := [?e]\<rparr>"
  let ?sv = "empty_db\<lparr>accounts := [\<lparr>acc_userId = ''alice'', totalBalance = -120, totalIncome = 0,
          totalExpense = 0, totalSavings = 0, totalInvested = 120\<rparr>], investments := [?v]\<rparr>"
  have a: "auth_user (user_req ''alice'' [] all_body) = Some ''alice''"
    and d: "auth_user (user_req ''alice'' ''n1'' []) = Some ''alice''"
      "params_id (user_req ''alice'' ''n1'' []) = ''n1''"
    by (simp_all add: user_req_def auth_user_def)
  have l0: "ledger ''alice'' (fresh_db ''alice'') = new_account ''alice''"
    by (simp add: ledger_def fresh_db_def empty_db_def new_account_def)
  have acc: "find (\<lambda>a. acc_userId a = ''alice'') (accounts (fresh_db ''alice'')) \<noteq> None"
    by (simp add: fresh_db_def empty_db_def new_account_def)
  from ledger_round_trip[OF a d, where J = js_sample and now = 0 and s = "fresh_db ''alice''"
      and i = ?i and si = ?si and e = ?e and se = ?se and v = ?v and sv = ?sv]
    wit_income wit_expense wit_investment acc
  have ci: "\<exists>s2. deleteIncome ?si (user_req ''alice'' ''n1'' []) = (Json 200 ''Income deleted'', s2) \<and>
           totalIncome (ledger ''alice'' s2) = totalIncome (ledger ''alice'' (fresh_db ''alice'')) \<and>
           totalBalance (ledger ''alice'' s2) = totalBalance (ledger ''alice'' (fresh_db ''alice'')) \<and>
           incomes s2 = incomes (fresh_db ''alice'')"
    and ce: "\<exists>s2. deleteExpense ?se (user_req ''alice'' ''n1'' []) = (Json 200 ''Expense deleted'', s2) \<and>
           totalExpense (ledger ''alice'' s2) = totalExpense (ledger ''alice'' (fresh_db ''alice'')) \<and>
           totalBalance (ledger ''alice'' s2) = totalBalance (ledger ''alice'' (fresh_db ''alice'')) \<and>
           expenses s2 = expenses (fresh_db ''alice'')"
    and cv: "\<exists>s2. deleteInvestment ?sv (user_req ''alice'' ''n1'' []) = (Json 200 ''Investment deleted'', s2) \<and>
           totalInvested (ledger ''alice'' s2) = totalInvested (ledger ''alice'' (fresh_db ''alice'')) \<and>
           totalBalance (ledger ''alice'' s2) = totalBalance (ledger ''alice'' (fresh_db ''alice'')) \<and>
           investments s2 = investments (fresh_db ''alice'')"
    by blast+
  have li: "totalIncome (ledger ''alice'' ?si) = 120" "totalBalance (ledger ''alice'' ?si) = 120"
    and le: "totalExpense (ledger ''alice'' ?se) = 120" "totalBalance (ledger ''alice'' ?se) = - 120"
    and lv: "totalInvested (ledger ''alice'' ?sv) = 120" "totalBalance (ledger ''alice'' ?sv) = - 120"
    by (simp_all add: ledger_def empty_db_def)
  from ci obtain s2i where "deleteIncome ?si (user_req ''alice'' ''n1'' []) = (Json 200 ''Income deleted'', s2i)"
    "totalIncome (ledger ''alice'' s2i) = 0" "totalBalance (ledger ''alice'' s2i) = 0"
    by (auto simp: l0 new_account_def)
  with wit_income li have 1: "\<exists>i si s2.
      createIncome js_sample 0 ''n1'' (fresh_db ''alice'') (user_req ''alice'' [] all_body)
        = (Json 201 i, si) \<and> inc_amount i = 120 \<and>
      totalIncome (ledger ''alice'' si) = 120 \<and> totalBalance (ledger ''alice'' si) = 120 \<and>
      deleteIncome si (user_req ''alice'' ''n1'' []) = (Json 200 ''Income deleted'', s2) \<and>
      totalIncome (ledger ''alice'' s2) = 0 \<and> totalBalance (ledger ''alice'' s2) = 0"
    by (intro exI[where x = ?i] exI[where x = ?si] exI[where x = s2i]) simp
  from ce obtain s2e where "deleteExpense ?se (user_req ''alice'' ''n1'' []) = (Json 200 ''Expense deleted'', s2e)"
    "totalExpense (ledger ''alice'' s2e) = 0" "totalBalance (ledger ''alice'' s2e) = 0"
    by (auto simp: l0 new_account_def)
  with wit_expense le have 2: "\<exists>e se s2.
      createExpense js_sample 0 ''n1'' (fresh_db ''alice'') (user_req ''alice'' [] all_body)
        = (Json 201 e, se) \<and> exp_amount e = 120 \<and>
      totalExpense (ledger ''alice'' se) = 120 \<and> totalBalance (ledger ''alice'' se) = - 120 \<and>
      deleteExpense se (user_req ''alice'' ''n1'' []) = (Json 200 ''Expense deleted'', s2) \<and>
      totalExpense (ledger ''alice'' s2) = 0 \<and> totalBalance (ledger ''alice'' s2) = 0"
    by (intro exI[where x = ?e] exI[where x = ?se] exI[where x = s2e]) simp
  from cv obtain s2v where "deleteInvestment ?sv (user_req ''alice'' ''n1'' []) = (Json 200 ''Investment deleted'', s2v)"
    "totalInvested (ledger ''alice'' s2v) = 0" "totalBalance (ledger ''alice'' s2v) = 0"
    by (auto simp: l0 new_account_def)
  with wit_investment lv have 3: "\<exists>v sv s2.
      createInvestment js_sample 0 ''n1'' (fresh_db ''alice'') (user_req ''alice'' [] all_body)
        = (Json 201 v, sv) \<and> inv_amount v = 120 \<and>
      totalInvested (ledger ''alice'' sv) = 120 \<and> totalBalance (ledger ''alice'' sv) = - 120 \<and>
      deleteInvestment sv (user_req ''alice'' ''n1'' []) = (Json 200 ''Investment deleted'', s2) \<and>
      totalInvested (ledger ''alice'' s2) = 0 \<and> totalBalance (ledger ''alice'' s2) = 0"
    by (intro exI[where x = ?v] exI[where x = ?sv] exI[where x = s2v]) simp
  from 1 2 3 show ?thesis by (intro conjI)
qed

section \<open>The weekly series\<close>



















section \<open>Lemmas on updates\<close>

lemma fold_bind_None: "fold (\<lambda>st acc. Option.bind acc st) steps None = None"
  by (induction steps) simp_all

lemma apply_data_Nil: "apply_data [] r = Some r"
  by (simp add: apply_data_def)

lemma apply_data_Cons:
  "apply_data (st # steps) r = (case st r of None \<Rightarrow> None | Some r1 \<Rightarrow> apply_data steps r1)"
  by (simp add: apply_data_def fold_bind_None split: option.splits)

lemma apply_data_spread:
  "apply_data (spread c st @ steps) r =
     (if c then (case st r of None \<Rightarrow> None | Some r1 \<Rightarrow> apply_data steps r1)
      else apply_data steps r)"
  by (simp add: spread_def apply_data_Cons)

lemma apply_data_spread_last:
  "apply_data (spread c st) r = (if c then st r else Some r)"
  by (simp add: spread_def apply_data_Cons apply_data_Nil split: option.splits)

lemma prisma_update_result:
  assumes "prisma_update key i f tbl = Some (r', tbl')"
  shows "\<exists>r. find (\<lambda>x. key x = i) tbl = Some r \<and> f r = Some r' \<and>
    tbl' = map (\<lambda>x. if key x = i then r' else x) tbl"
  using assms by (auto simp: prisma_update_def split: option.splits)

lemma find_owned_is_find_id:
  assumes "distinct (map key tbl)" and "find (\<lambda>x. key x = i \<and> Q x) tbl = Some r"
  shows "find (\<lambda>x. key x = i) tbl = Some r \<and> r \<in> set tbl \<and> key r = i \<and> Q r"
proof -
  from assms(2) have r: "r \<in> set tbl" "key r = i" "Q r"
    by (auto simp: find_Some_iff)
  have "find (\<lambda>x. key x = i) tbl = Some r"
    using assms(1) r(1) by (rule find_by_key) (simp_all add: r(2))
  with r show ?thesis by simp
qed

lemma find_map_key:
  assumes "\<And>x. key (g x) = key x"
  shows "find (\<lambda>x. key x = i) (map g xs) = map_option g (find (\<lambda>x. key x = i) xs)"
  by (induction xs) (simp_all add: assms)

lemma filter_replace_single:
  assumes "distinct (map key xs)" and "x \<in> set xs" and "key x = i" and "P r'"
    and "\<And>y. y \<in> set xs \<Longrightarrow> key y \<noteq> i \<Longrightarrow> \<not> P y"
  shows "filter P (map (\<lambda>r. if key r = i then r' else r) xs) = [r']"
  using assms(1,2,5)
proof (induction xs)
  case Nil
  then show ?case by simp
next
  case (Cons a xs)
  show ?case
  proof (cases "key a = i")
    case True
    from Cons.prems(1) have nk: "key a \<notin> key ` set xs" by simp
    have "\<forall>y\<in>set xs. key y \<noteq> i"
    proof
      fix y assume "y \<in> set xs"
      then have "key y \<in> key ` set xs" by (rule imageI)
      with nk True show "key y \<noteq> i" by metis
    qed
    then have "filter P (map (\<lambda>r. if key r = i then r' else r) xs) = []"
      using Cons.prems(3) by (auto simp: filter_empty_conv)
    with True show ?thesis by (simp add: assms(4))
  next
    case False
    with Cons.prems(2) assms(3) have xin: "x \<in> set xs" by auto
    from False Cons.prems(3) have "\<not> P a" by simp
    moreover have "filter P (map (\<lambda>r. if key r = i then r' else r) xs) = [r']"
      using Cons.prems(1) xin Cons.prems(3) by (intro Cons.IH) auto
    ultimately show ?thesis using False by simp
  qed
qed

lemma at_most_one_unique:
  assumes "length (filter P xs) \<le> 1" and "x \<in> set xs" and "P x" and "y \<in> set xs" and "P y"
  shows "y = x"
proof -
  have m: "x \<in> set (filter P xs)" "y \<in> set (filter P xs)" using assms by simp_all
  show ?thesis
  proof (cases "filter P xs")
    case Nil
    with m show ?thesis by simp
  next
    case (Cons z zs)
    with assms(1) have "zs = []" by simp
    with Cons m show ?thesis by simp
  qed
qed

section \<open>One default card\<close>

text \<open>The cards of a user that are marked as the default.\<close>

definition defaults_of :: "string \<Rightarrow> card list \<Rightarrow> card list" where
  "defaults_of uid tbl = filter (\<lambda>c. card_userId c = uid \<and> card_isDefault c) tbl"

lemma defaults_of_unset: "defaults_of uid (unset_defaults uid tbl) = []"
  by (induction tbl) (simp_all add: defaults_of_def unset_defaults_def)

lemma unset_defaults_ids: "map card_id (unset_defaults uid tbl) = map card_id tbl"
  by (simp add: unset_defaults_def)

lemma createCard_default:
  assumes c: "createCard J now nid s req = (Json 201 c, s')"
    and a: "auth_user req = Some uid" and t: "body req ''isDefault'' = JBool True"
  shows "defaults_of uid (cards s') = [c]"
proof -
  from c a t have "cards s' = unset_defaults uid (cards s) @ [c] \<and> card_userId c = uid \<and>
      card_isDefault c"
    by (auto simp: createCard_def Let_def prisma_create_def card_row_def truthy_def loose_null_def
        as_bool_def split: if_splits option.splits prod.splits)
  then show ?thesis
    using defaults_of_unset[of uid "cards s"] by (simp add: defaults_of_def)
qed

lemma updateCard_default:
  assumes c: "updateCard J s req = (Json 200 c, s')"
    and a: "auth_user req = Some uid" and t: "body req ''isDefault'' = JBool True"
    and d: "distinct (map card_id (cards s))"
    and one: "length (defaults_of uid (cards s)) \<le> 1"
  shows "defaults_of uid (cards s') = [c]"
proof -
  let ?i = "params_id req"
  let ?steps = "spread (truthy (body req ''cardholderName''))
                  (put card_name_update (as_string (body req ''cardholderName''))) @
                spread (truthy (body req ''limit''))
                  (put card_limit_update (map_option Some (parseFloat J (body req ''limit'')))) @
                spread (body req ''isDefault'' \<noteq> JUndef)
                  (put card_isDefault_update (as_bool (body req ''isDefault'')))"
  from c a obtain found where f: "find (\<lambda>c. card_id c = ?i \<and> card_userId c = uid) (cards s) = Some found"
    by (auto simp: updateCard_def Let_def split: option.splits)
  define tbl1 where "tbl1 = (if \<not> card_isDefault found then unset_defaults uid (cards s) else cards s)"
  from c a f t have "\<exists>tbl. prisma_update card_id ?i (apply_data ?steps) tbl1 = Some (c, tbl) \<and>
      cards s' = tbl"
    by (auto simp: updateCard_def Let_def truthy_def tbl1_def split: option.splits if_splits)
  then have u: "prisma_update card_id ?i (apply_data ?steps) tbl1 = Some (c, cards s')" by auto
  from prisma_update_result[OF u] obtain r where
    r: "find (\<lambda>x. card_id x = ?i) tbl1 = Some r" and ar: "apply_data ?steps r = Some c"
    and s': "cards s' = map (\<lambda>x. if card_id x = ?i then c else x) tbl1"
    by blast
  from find_owned_is_find_id[OF d f] have fo: "find (\<lambda>x. card_id x = ?i) (cards s) = Some found"
    "found \<in> set (cards s)" "card_id found = ?i" "card_userId found = uid" by simp_all
  have d1: "distinct (map card_id tbl1)"
    using d by (simp add: tbl1_def unset_defaults_ids del: map_map)
  have rin: "r \<in> set tbl1" "card_id r = ?i"
    using r by (auto simp: find_Some_iff)
  have ru: "card_userId r = uid"
  proof (cases "card_isDefault found")
    case True
    then show ?thesis using r fo by (simp add: tbl1_def)
  next
    case False
    have "find (\<lambda>x. card_id x = ?i) (unset_defaults uid (cards s))
        = map_option (\<lambda>c. if card_userId c = uid \<and> card_isDefault c
            then c\<lparr>card_isDefault := False\<rparr> else c) (find (\<lambda>x. card_id x = ?i) (cards s))"
      unfolding unset_defaults_def by (rule find_map_key) simp
    with False r fo show ?thesis by (auto simp: tbl1_def)
  qed
  from ar t have cu: "card_userId c = card_userId r" and cd: "card_isDefault c"
    by (auto simp: apply_data_spread apply_data_spread_last put_def as_bool_def
        split: if_splits option.splits)
  have others: "\<not> (card_userId y = uid \<and> card_isDefault y)"
    if y: "y \<in> set tbl1" "card_id y \<noteq> ?i" for y
  proof (cases "card_isDefault found")
    case True
    show ?thesis
    proof
      assume py: "card_userId y = uid \<and> card_isDefault y"
      from y True have yin: "y \<in> set (cards s)" by (simp add: tbl1_def)
      have "y = found"
        using one[unfolded defaults_of_def] fo(2) _ yin py
        by (rule at_most_one_unique) (simp add: fo True)
      with y(2) fo(3) show False by simp
    qed
  next
    case False
    with y have "y \<in> set (unset_defaults uid (cards s))" by (simp add: tbl1_def)
    then have "y \<notin> set (defaults_of uid (unset_defaults uid (cards s))) \<Longrightarrow> ?thesis"
      by (simp add: defaults_of_def)
    then show ?thesis by (simp add: defaults_of_unset)
  qed
  have "filter (\<lambda>c. card_userId c = uid \<and> card_isDefault c)
      (map (\<lambda>x. if card_id x = ?i then c else x) tbl1) = [c]"
    using d1 rin(1) rin(2) _ others
    by (rule filter_replace_single) (simp add: cu ru cd)
  then show ?thesis by (simp add: defaults_of_def s')
qed

text \<open>
  C4. A card create or update with isDefault = true that succeeds leaves exactly one card
  of that user marked as the default, namely the card it wrote. For an update this needs
  the card ids to be unique and at most one default card of the user before the call; a
  create needs neither.
\<close>

theorem single_default_card:
  assumes a: "auth_user req = Some uid" and t: "body req ''isDefault'' = JBool True"
  shows
    "(createCard J now nid s req = (Json 201 c, s1) \<longrightarrow>
        defaults_of uid (cards s1) = [c] \<and> length (defaults_of uid (cards s1)) = 1) \<and>
     (updateCard J s req = (Json 200 c', s2) \<and> distinct (map card_id (cards s)) \<and>
      length (defaults_of uid (cards s)) \<le> 1 \<longrightarrow>
        defaults_of uid (cards s2) = [c'] \<and> length (defaults_of uid (cards s2)) = 1)"
  using createCard_default[OF _ a t, of J now nid s c s1]
    updateCard_default[OF _ a t, of J s c' s2]
  by simp

definition card1 :: card where
  "card1 = \<lparr>card_id = ''c1'', card_userId = ''alice'', card_name = ''Alice'', card_type = ''visa'',
     card_last4 = ''1111'', card_issuer = Some ''Bank'', card_expiryMonth = None,
     card_expiryYear = None, card_limit = None, card_isDefault = True, card_createdAt = 0\<rparr>"

definition card2 :: card where
  "card2 = \<lparr>card_id = ''c2'', card_userId = ''alice'', card_name = ''Alice'', card_type = ''amex'',
     card_last4 = ''2222'', card_issuer = Some ''Bank'', card_expiryMonth = None,
     card_expiryYear = None, card_limit = None, card_isDefault = False, card_createdAt = 1\<rparr>"

definition card3 :: card where
  "card3 = \<lparr>card_id = ''c3'', card_userId = ''alice'', card_name = ''Alice'', card_type = ''visa'',
     card_last4 = ''3333'', card_issuer = Some ''Unknown'', card_expiryMonth = None,
     card_expiryYear = None, card_limit = None, card_isDefault = True, card_createdAt = 2\<rparr>"

definition cards_db :: db where
  "cards_db = empty_db\<lparr>cards := [card1, card2]\<rparr>"

definition new_card_body :: "(string \<times> jv) list" where
  "new_card_body = [(''type'', JStr ''visa''), (''last4'', JStr ''3333''),
     (''cardholderName'', JStr ''Alice''), (''isDefault'', JBool True)]"

lemma createCard_example:
  "createCard js_sample 2 ''c3'' cards_db (user_req ''alice'' [] new_card_body)
   = (Json 201 card3,
      empty_db\<lparr>cards := [card1\<lparr>card_isDefault := False\<rparr>, card2, card3]\<rparr>)"
  by (simp add: createCard_def card_row_def cards_db_def card1_def card2_def card3_def
      new_card_body_def toString_def js_or_def final_expiry_def opt_int_def unset_defaults_def
      as_bool_def loose_null_def eval_defs)

lemma updateCard_example:
  "updateCard js_sample cards_db (user_req ''alice'' ''c2'' [(''isDefault'', JBool True)])
   = (Json 200 (card2\<lparr>card_isDefault := True\<rparr>),
      empty_db\<lparr>cards := [card1\<lparr>card_isDefault := False\<rparr>, card2\<lparr>card_isDefault := True\<rparr>]\<rparr>)"
  by (simp add: updateCard_def cards_db_def card1_def card2_def unset_defaults_def
      as_bool_def eval_defs)

theorem single_default_card_witness:
  "(\<exists>c s1. createCard js_sample 2 ''c3'' cards_db (user_req ''alice'' [] new_card_body)
       = (Json 201 c, s1) \<and> defaults_of ''alice'' (cards s1) = [c] \<and>
     length (defaults_of ''alice'' (cards s1)) = 1) \<and>
   (\<exists>c s2. updateCard js_sample cards_db (user_req ''alice'' ''c2'' [(''isDefault'', JBool True)])
       = (Json 200 c, s2) \<and> defaults_of ''alice'' (cards s2) = [c] \<and>
     length (defaults_of ''alice'' (cards s2)) = 1)"
proof -
  have a1: "auth_user (user_req ''alice'' [] new_card_body) = Some ''alice''"
    and t1: "body (user_req ''alice'' [] new_card_body) ''isDefault'' = JBool True"
    and a2: "auth_user (user_req ''alice'' ''c2'' [(''isDefault'', JBool True)]) = Some ''alice''"
    and t2: "body (user_req ''alice'' ''c2'' [(''isDefault'', JBool True)]) ''isDefault'' = JBool True"
    by (simp_all add: user_req_def auth_user_def obj_def new_card_body_def)
  have pre: "distinct (map card_id (cards cards_db))"
    "length (defaults_of ''alice'' (cards cards_db)) \<le> 1"
    by (simp_all add: cards_db_def empty_db_def card1_def card2_def defaults_of_def)
  from single_default_card[OF a1 t1, where J = js_sample and now = 2 and nid = "''c3''" and s = cards_db] createCard_example
  have 1: "\<exists>c s1. createCard js_sample 2 ''c3'' cards_db (user_req ''alice'' [] new_card_body)
       = (Json 201 c, s1) \<and> defaults_of ''alice'' (cards s1) = [c] \<and>
     length (defaults_of ''alice'' (cards s1)) = 1"
    by blast
  from single_default_card[OF a2 t2, where J = js_sample and s = cards_db] updateCard_example pre
  have 2: "\<exists>c s2. updateCard js_sample cards_db (user_req ''alice'' ''c2'' [(''isDefault'', JBool True)])
       = (Json 200 c, s2) \<and> defaults_of ''alice'' (cards s2) = [c] \<and>
     length (defaults_of ''alice'' (cards s2)) = 1"
    by blast
  from 1 2 show ?thesis by (rule conjI)
qed

section \<open>Routes\<close>

text \<open>
  The application mounts its routers in this order: the dashboard router at \<open>/api\<close>, then
  the routers of the families at \<open>/api/auth\<close>, \<open>/api/expenses\<close>, \<open>/api/incomes\<close>,
  \<open>/api/investments\<close>, \<open>/api/budgets\<close>, \<open>/api/cards\<close> and \<open>/api/savings\<close>. A
  request goes to the first route whose verb and path match; no handler passes it on.
\<close>

datatype http_method = GET | POST | PUT | DELETE

datatype seg = Lit string | Param

datatype handler =
    R_getDashboard | R_getTransactions | R_createTransaction
  | R_dashboard_getBudgets | R_dashboard_createBudget | R_dashboard_updateBudget
  | R_register | R_login | R_getProfile | R_updateProfile
  | R_getExpenses | R_createExpense | R_updateExpense | R_deleteExpense
  | R_getIncomes | R_createIncome | R_updateIncome | R_deleteIncome
  | R_getInvestments | R_createInvestment | R_updateInvestment | R_deleteInvestment
  | R_getBudgets | R_createBudget | R_updateBudget | R_deleteBudget
  | R_getCards | R_createCard | R_updateCard | R_deleteCard
  | R_getSavingsGoals | R_createSavingsGoal | R_updateSavingsGoal
  | R_contributeSavingsGoal | R_withdrawSavingsGoal | R_deleteSavingsGoal

type_synonym route = "http_method \<times> seg list \<times> handler"

definition dashboardRoutes :: "route list" where
  "dashboardRoutes =
     [(GET, [Lit ''dashboard''], R_getDashboard),
      (GET, [Lit ''transactions''], R_getTransactions),
      (POST, [Lit ''transactions''], R_createTransaction),
      (GET, [Lit ''budgets''], R_dashboard_getBudgets),
      (POST, [Lit ''budgets''], R_dashboard_createBudget),
      (PUT, [Lit ''budgets'', Param], R_dashboard_updateBudget)]"

definition authRoutes :: "route list" where
  "authRoutes =
     [(POST, [Lit ''register''], R_register), (POST, [Lit ''login''], R_login),
      (GET, [Lit ''profile''], R_getProfile), (PUT, [Lit ''profile''], R_updateProfile)]"

definition expenseRoutes :: "route list" where
  "expenseRoutes =
     [(GET, [], R_getExpenses), (POST, [], R_createExpense),
      (PUT, [Param], R_updateExpense), (DELETE, [Param], R_deleteExpense)]"

definition incomeRoutes :: "route list" where
  "incomeRoutes =
     [(GET, [], R_getIncomes), (POST, [], R_createIncome),
      (PUT, [Param], R_updateIncome), (DELETE, [Param], R_deleteIncome)]"

definition investmentRoutes :: "route list" where
  "investmentRoutes =
     [(GET, [], R_getInvestments), (POST, [], R_createInvestment),
      (PUT, [Param], R_updateInvestment), (DELETE, [Param], R_deleteInvestment)]"

definition budgetRoutes :: "route list" where
  "budgetRoutes =
     [(GET, [], R_getBudgets), (POST, [], R_createBudget),
      (PUT, [Param], R_updateBudget), (DELETE, [Param], R_deleteBudget)]"

definition cardRoutes :: "route list" where
  "cardRoutes =
     [(GET, [], R_getCards), (POST, [], R_createCard),
      (PUT, [Param], R_updateCard), (DELETE, [Param], R_deleteCard)]"

definition savingsGoalRoutes :: "route list" where
  "savingsGoalRoutes =
     [(GET, [], R_getSavingsGoals), (POST, [], R_createSavingsGoal),
      (PUT, [Param], R_updateSavingsGoal),
      (POST, [Param, Lit ''contribute''], R_contributeSavingsGoal),
      (POST, [Param, Lit ''withdraw''], R_withdrawSavingsGoal),
      (DELETE, [Param], R_deleteSavingsGoal)]"

text \<open>\<open>app.use(prefix, router)\<close>\<close>

definition mount :: "string list \<Rightarrow> route list \<Rightarrow> route list" where
  "mount prefix routes = map (\<lambda>(m, pat, h). (m, map Lit prefix @ pat, h)) routes"

definition app_routes :: "route list" where
  "app_routes =
     mount [''api''] dashboardRoutes @
     mount [''api'', ''auth''] authRoutes @
     mount [''api'', ''expenses''] expenseRoutes @
     mount [''api'', ''incomes''] incomeRoutes @
     mount [''api'', ''investments''] investmentRoutes @
     mount [''api'', ''budgets''] budgetRoutes @
     mount [''api'', ''cards''] cardRoutes @
     mount [''api'', ''savings''] savingsGoalRoutes"

fun matches :: "seg list \<Rightarrow> string list \<Rightarrow> bool" where
  "matches [] [] = True"
| "matches (Lit l # ps) (x # xs) = (l = x \<and> matches ps xs)"
| "matches (Param # ps) (x # xs) = (x \<noteq> [] \<and> matches ps xs)"
| "matches _ _ = False"

definition dispatch :: "http_method \<Rightarrow> string list \<Rightarrow> handler option" where
  "dispatch m path =
     map_option (\<lambda>(m', pat, h). h)
       (find (\<lambda>(m', pat, h). m' = m \<and> matches pat path) app_routes)"

text \<open>
  \<open>authMiddleware\<close> answers 401 when the token gives no user (a missing and an invalid
  token are not told apart here) and runs the handler otherwise.
\<close>

definition authMiddleware :: "request \<Rightarrow> db \<Rightarrow> 'a reply \<times> db \<Rightarrow> 'a reply \<times> db" where
  "authMiddleware req s handle =
     (case userId req of None \<Rightarrow> (Fail 401 ''Invalid or expired token'', s) | Some u \<Rightarrow> handle)"

text \<open>
  What the application does with \<open>PUT /api/budgets/:id\<close>: the reply is the summary of the
  dashboard controller (\<open>Inl\<close>) or the row of the budget controller (\<open>Inr\<close>).
\<close>

definition put_api_budgets_id ::
  "js \<Rightarrow> db \<Rightarrow> request \<Rightarrow> (budget_summary + budget) reply \<times> db" where
  "put_api_budgets_id J s req =
     (case dispatch PUT [''api'', ''budgets'', params_id req] of
        Some R_dashboard_updateBudget \<Rightarrow>
          authMiddleware req s
            (case dashboard_updateBudget J s req of (r, s') \<Rightarrow> (map_reply Inl r, s'))
      | Some R_updateBudget \<Rightarrow>
          authMiddleware req s (case updateBudget J s req of (r, s') \<Rightarrow> (map_reply Inr r, s'))
      | _ \<Rightarrow> (Fail 404 ''Route not found'', s))"

definition bob_budget :: budget where
  "bob_budget = \<lparr>bud_id = ''b1'', bud_userId = ''bob'', bud_name = ''Food'',
     bud_category = None, bud_spent = 10, bud_limit = 300, bud_color = ''#10B981'',
     bud_icon = None, bud_frequency = ''monthly'', bud_month = None, bud_year = None,
     bud_alertThreshold = 80, bud_followed = None, bud_createdAt = 0\<rparr>"

lemma dispatch_put_budget:
  "i \<noteq> [] \<Longrightarrow> dispatch PUT [''api'', ''budgets'', i] = Some R_dashboard_updateBudget"
  by (simp add: dispatch_def app_routes_def mount_def dashboardRoutes_def)

text \<open>
  Elsewhere the isolation holds: each of these updates and deletes answers 404 and leaves
  the store as it was when the caller owns no row with the id of the request, which is the
  case when the row with that id belongs to another user.
\<close>

lemma foreign_row_not_found:
  assumes "distinct (map key tbl)" and "r \<in> set tbl" and "key r = i" and "owner r \<noteq> a"
  shows "find (\<lambda>x. key x = i \<and> owner x = a) tbl = None"
proof -
  have "\<not> (key x = i \<and> owner x = a)" if x: "x \<in> set tbl" for x
  proof
    assume h: "key x = i \<and> owner x = a"
    from assms(1) have "inj_on key (set tbl)" by (simp add: distinct_map)
    with x assms(2) h assms(3) have "x = r" by (auto dest: inj_onD)
    with h assms(4) show False by simp
  qed
  then show ?thesis by (simp add: find_None_iff)
qed

lemma isolation_other_routes:
  assumes "auth_user req = Some a"
  shows
    "find (\<lambda>r. inc_id r = params_id req \<and> inc_userId r = a) (incomes s) = None \<Longrightarrow>
       updateIncome J s req = (Fail 404 ''Income not found'', s) \<and>
       deleteIncome s req = (Fail 404 ''Income not found'', s)"
    "find (\<lambda>r. exp_id r = params_id req \<and> exp_userId r = a) (expenses s) = None \<Longrightarrow>
       updateExpense J s req = (Fail 404 ''Expense not found'', s) \<and>
       deleteExpense s req = (Fail 404 ''Expense not found'', s)"
    "find (\<lambda>r. inv_id r = params_id req \<and> inv_userId r = a) (investments s) = None \<Longrightarrow>
       updateInvestment J s req = (Fail 404 ''Investment not found'', s) \<and>
       deleteInvestment s req = (Fail 404 ''Investment not found'', s)"
    "find (\<lambda>r. bud_id r = params_id req \<and> bud_userId r = a) (budgets s) = None \<Longrightarrow>
       updateBudget J s req = (Fail 404 ''Budget not found'', s) \<and>
       deleteBudget s req = (Fail 404 ''Budget not found'', s)"
    "find (\<lambda>r. card_id r = params_id req \<and> card_userId r = a) (cards s) = None \<Longrightarrow>
       updateCard J s req = (Fail 404 ''Card not found'', s) \<and>
       deleteCard s req = (Fail 404 ''Card not found'', s)"
    "find (\<lambda>r. goal_id r = params_id req \<and> goal_userId r = a) (savingsGoals s) = None \<Longrightarrow>
       updateSavingsGoal J s req = (Fail 404 ''Savings goal not found'', s) \<and>
       deleteSavingsGoal s req = (Fail 404 ''Savings goal not found'', s)"
  using assms
  by (simp_all add: updateIncome_def deleteIncome_def updateExpense_def deleteExpense_def
      updateInvestment_def deleteInvestment_def updateBudget_def deleteBudget_def
      updateCard_def deleteCard_def updateSavingsGoal_def deleteSavingsGoal_def Let_def)

lemma budget_controller_isolated:
  "updateBudget js_sample (empty_db\<lparr>budgets := [bob_budget]\<rparr>)
     (user_req ''alice'' ''b1'' [(''spent'', JNum 999)])
   = (Fail 404 ''Budget not found'', empty_db\<lparr>budgets := [bob_budget]\<rparr>)"
  by (simp add: updateBudget_def bob_budget_def eval_defs)

text \<open>
  C1. User alice sends \<open>PUT /api/budgets/b1\<close> with \<open>{spent: 999}\<close>, where budget b1
  belongs to bob. The isolation asks for a 404 and an unchanged row. The request goes to the
  dashboard controller's \<open>updateBudget\<close>, mounted before the budget controller's, which
  checks no owner: the reply is 200 and bob's budget now has spent = 999.
\<close>

theorem put_budget_ignores_owner:
  "dispatch PUT [''api'', ''budgets'', ''b1''] = Some R_dashboard_updateBudget \<and>
   bud_userId bob_budget = ''bob'' \<and> bud_spent bob_budget = 10 \<and>
   put_api_budgets_id js_sample (empty_db\<lparr>budgets := [bob_budget]\<rparr>)
     (user_req ''alice'' ''b1'' [(''spent'', JNum 999)])
   = (Json 200
        (Inl \<lparr>sum_id = ''b1'', sum_name = ''Food'', sum_spent = 999, sum_limit = 300,
              sum_color = ''#10B981'', sum_icon = None\<rparr>),
      empty_db\<lparr>budgets := [bob_budget\<lparr>bud_spent := 999\<rparr>]\<rparr>)"
  by (simp add: put_api_budgets_id_def dispatch_put_budget authMiddleware_def
      dashboard_updateBudget_def bob_budget_def eval_defs)

section \<open>Lists and pages\<close>

















section \<open>Partial updates\<close>





































end
